theory Spec2Isabelle
  imports Complex_Main
begin

section \<open>Python and numpy operations used by the engine\<close>

text \<open>
  Python floats and numpy's complex128 are modelled by \<open>real\<close> and \<open>complex\<close>: the
  arithmetic is exact. Every exception the engine's own code can raise is a value of
  \<open>error\<close>, and a fallible operation returns \<open>error + 'a\<close>. Python's \<open>ValueError\<close>
  has three origins here, kept apart: \<open>MathDomainError\<close> (from \<open>math.sqrt\<close>),
  \<open>ReshapeError\<close> (from \<open>reshape\<close>) and \<open>RepeatedQubitError\<close> (from
  \<open>density_matrix_of\<close> when a qubit is listed twice).
\<close>

datatype error =
  MathDomainError | ReshapeError | RepeatedQubitError | KeyError | IndexError | AttributeError

definition bindE :: "error + 'a \<Rightarrow> ('a \<Rightarrow> error + 'b) \<Rightarrow> error + 'b" where
  "bindE r f = (case r of Inl e \<Rightarrow> Inl e | Inr v \<Rightarrow> f v)"

text \<open>Rounding to the nearest integer, a tie going to the even neighbour (numpy's \<open>rint\<close>).\<close>

definition rint :: "real \<Rightarrow> int" where
  "rint x = (let f = \<lfloor>x\<rfloor>; d = x - of_int f in
     if d < 1/2 then f else if d > 1/2 then f + 1 else if even f then f else f + 1)"

text \<open>
  \<open>numpy.around(x, n)\<close> and Python's \<open>round(x, n)\<close>: round half to even at \<open>n\<close> decimals,
  here of the real number that the float denotes (numpy scales the float by \<open>10 ^ n\<close> in
  floating point before it rounds).
\<close>

definition around :: "real \<Rightarrow> nat \<Rightarrow> real" where
  "around x n = of_int (rint (x * 10 ^ n)) / 10 ^ n"

definition py_round :: "real \<Rightarrow> nat \<Rightarrow> real" where
  "py_round x n = of_int (rint (x * 10 ^ n)) / 10 ^ n"

text \<open>\<open>math.isclose(a, b)\<close> with its default tolerances \<open>rel_tol = 1e-09\<close>, \<open>abs_tol = 0.0\<close>.\<close>

definition isclose :: "real \<Rightarrow> real \<Rightarrow> bool" where
  "isclose a b = (a = b \<or> \<bar>a - b\<bar> \<le> max ((1 / 10 ^ 9) * max \<bar>a\<bar> \<bar>b\<bar>) 0)"

text \<open>\<open>math.sqrt\<close> raises \<open>ValueError\<close> (math domain error) on a negative argument.\<close>

definition py_sqrt :: "real \<Rightarrow> error + real" where
  "py_sqrt x = (if x < 0 then Inl MathDomainError else Inr (sqrt x))"

text \<open>\<open>numpy.count_nonzero\<close> of a boolean array, and \<open>numpy.size\<close>.\<close>

definition count_nonzero :: "bool list \<Rightarrow> int" where
  "count_nonzero bs = int (length (filter (\<lambda>b. b) bs))"

definition np_size :: "'a list \<Rightarrow> int" where
  "np_size xs = int (length xs)"

text \<open>Matrices are lists of rows. \<open>A @ B\<close>, \<open>numpy.trace\<close> and \<open>numpy.kron\<close>.\<close>

definition matmul :: "complex list list \<Rightarrow> complex list list \<Rightarrow> complex list list" where
  "matmul A B =
     map (\<lambda>i. map (\<lambda>j. sum_list (map (\<lambda>k. A ! i ! k * B ! k ! j) [0..<length B]))
                  [0..<length (hd B)])
         [0..<length A]"

definition trace :: "complex list list \<Rightarrow> complex" where
  "trace A = sum_list (map (\<lambda>i. A ! i ! i) [0..<length A])"

definition kron :: "complex list list \<Rightarrow> complex list list \<Rightarrow> complex list list" where
  "kron A B = concat (map (\<lambda>ra. map (\<lambda>rb. concat (map (\<lambda>a. map (\<lambda>b. a * b) rb) ra)) B) A)"

text \<open>\<open>float(z)\<close> of a numpy complex scalar keeps the real part.\<close>

definition py_float :: "complex \<Rightarrow> real" where
  "py_float z = Re z"

section \<open>The simulator's snapshot of one circuit moment\<close>

text \<open>
  A snapshot holds the simulator's qubit order (the axes of the state vector), the state
  vector with the first axis most significant, and the measurement record keyed by
  qubit name. The quantum state simulator is an external collaborator: a run of the
  stepper is given the list of snapshots it produces.
\<close>

record moment =
  qubit_order :: "string list"
  state_vector :: "complex list"
  measurements :: "string \<rightharpoonup> int list"

fun index_of :: "'a \<Rightarrow> 'a list \<Rightarrow> nat option" where
  "index_of q [] = None"
| "index_of q (x # xs) = (if q = x then Some 0 else map_option Suc (index_of q xs))"

fun axes_of :: "string list \<Rightarrow> string list \<Rightarrow> error + nat list" where
  "axes_of order [] = Inr []"
| "axes_of order (q # qs) =
     (case index_of q order of None \<Rightarrow> Inl KeyError
      | Some k \<Rightarrow> bindE (axes_of order qs) (\<lambda>ks. Inr (k # ks)))"

text \<open>Bit \<open>t\<close> (most significant first) of the \<open>w\<close>-bit number \<open>r\<close>.\<close>

definition bit_at :: "nat \<Rightarrow> nat \<Rightarrow> nat \<Rightarrow> nat" where
  "bit_at w r t = (r div 2 ^ (w - 1 - t)) mod 2"

text \<open>The basis index whose bits on the axes \<open>ks\<close> are those of \<open>r\<close>, all other bits zero.\<close>

definition spread :: "nat \<Rightarrow> nat list \<Rightarrow> nat \<Rightarrow> nat" where
  "spread n ks r =
     sum_list (map (\<lambda>t. bit_at (length ks) r t * 2 ^ (n - 1 - ks ! t)) [0..<length ks])"

text \<open>
  The reduced density matrix of a pure state on the kept axes: the partial trace of
  \<open>|psi><psi|\<close> over the other axes, \<open>rho[r][c] = sum_e psi(r, e) * conj psi(c, e)\<close>.
\<close>

definition reduced_density :: "complex list \<Rightarrow> nat \<Rightarrow> nat list \<Rightarrow> complex list list" where
  "reduced_density sv n keep =
     (let rest = filter (\<lambda>k. k \<notin> set keep) [0..<n];
          d = 2 ^ length keep;
          m = 2 ^ length rest
      in map (\<lambda>r. map (\<lambda>c. sum_list (map (\<lambda>e.
                 sv ! (spread n keep r + spread n rest e) *
                 cnj (sv ! (spread n keep c + spread n rest e))) [0..<m]))
               [0..<d]) [0..<d])"

text \<open>
  \<open>density_matrix_of\<close>: the qubits are looked up in the snapshot's qubit map (a
  \<open>KeyError\<close> for an unknown qubit); a qubit listed twice is refused with a
  \<open>ValueError\<close>; otherwise the result is the partial trace.
\<close>

definition density_matrix_of :: "moment \<Rightarrow> string list \<Rightarrow> error + complex list list" where
  "density_matrix_of result qs =
     bindE (axes_of (qubit_order result) qs)
       (\<lambda>keep. if distinct keep
          then Inr (reduced_density (state_vector result) (length (qubit_order result)) keep)
          else Inl RepeatedQubitError)"

text \<open>
  \<open>bloch_vector_of\<close>: the qubit is looked up in the snapshot's qubit map, and the
  simulator's routine \<open>bloch_vector_from_state_vector\<close> is called on the state vector,
  the number of qubits and the qubit's axis. The routine computes in single precision
  and belongs to the simulator; it is the parameter \<open>bloch\<close>, which returns the three
  components as the real numbers its floats denote.
\<close>

definition bloch_vector_of ::
    "(complex list \<Rightarrow> nat \<Rightarrow> nat \<Rightarrow> real list) \<Rightarrow> moment \<Rightarrow> string \<Rightarrow> error + real list" where
  "bloch_vector_of bloch result q =
     (case index_of q (qubit_order result) of
        None \<Rightarrow> Inl KeyError
      | Some k \<Rightarrow> Inr (bloch (state_vector result) (length (qubit_order result)) k))"

section \<open>The entanglement witnesses\<close>

subsection \<open>Two qubits\<close>

text \<open>
  \<open>schmidt_decomposition_for_vector_pure_state\<close> belongs to an external package; the
  witness takes it as the parameter \<open>schmidt\<close>, which returns the Schmidt coefficients
  of a state vector for a decomposition shape.
\<close>

definition detect_entanglement_bipartite ::
    "(complex list \<Rightarrow> nat \<times> nat \<Rightarrow> real list) \<Rightarrow> moment \<Rightarrow> bool" where
  "detect_entanglement_bipartite schmidt result =
     (let coefficients = schmidt (state_vector result) (2, 2);
          rounded_coeffs = map (\<lambda>c. around c 6) coefficients
      in \<not> (count_nonzero (map (\<lambda>c. c = 1) rounded_coeffs) = 1 \<and>
             count_nonzero (map (\<lambda>c. c = 0) rounded_coeffs) = np_size rounded_coeffs - 1))"

subsection \<open>Three qubits\<close>

definition tuple_get :: "'a list \<Rightarrow> nat \<Rightarrow> error + 'a" where
  "tuple_get xs i = (if i < length xs then Inr (xs ! i) else Inl IndexError)"

text \<open>\<open>state_vector().reshape((2, 2, 2))\<close>: eight amplitudes, indexed by three bits.\<close>

definition reshape222 :: "complex list \<Rightarrow> error + (nat \<Rightarrow> nat \<Rightarrow> nat \<Rightarrow> complex)" where
  "reshape222 sv =
     (if length sv = 8 then Inr (\<lambda>a b c. sv ! (4 * a + 2 * b + c)) else Inl ReshapeError)"

definition hdet :: "(nat \<Rightarrow> nat \<Rightarrow> nat \<Rightarrow> complex) \<Rightarrow> complex" where
  "hdet cstate =
     ((cstate 0 0 0)\<^sup>2 * (cstate 1 1 1)\<^sup>2) + ((cstate 0 0 1)\<^sup>2 * (cstate 1 1 0)\<^sup>2) +
     ((cstate 0 1 0)\<^sup>2 * (cstate 1 0 1)\<^sup>2) + ((cstate 1 0 0)\<^sup>2 * (cstate 0 1 1)\<^sup>2) -
     2 * cstate 0 0 0 * cstate 0 0 1 * cstate 1 1 0 * cstate 1 1 1 -
     2 * cstate 0 0 0 * cstate 0 1 0 * cstate 1 0 1 * cstate 1 1 1 -
     2 * cstate 0 0 0 * cstate 0 1 1 * cstate 1 0 0 * cstate 1 1 1 -
     2 * cstate 0 0 1 * cstate 0 1 0 * cstate 1 0 1 * cstate 1 1 0 -
     2 * cstate 0 0 1 * cstate 0 1 1 * cstate 1 1 0 * cstate 1 0 0 -
     2 * cstate 0 1 0 * cstate 0 1 1 * cstate 1 0 1 * cstate 1 0 0 +
     4 * cstate 0 0 0 * cstate 0 1 1 * cstate 1 0 1 * cstate 1 1 0 +
     4 * cstate 0 0 1 * cstate 0 1 0 * cstate 1 0 0 * cstate 1 1 1"

text \<open>The quantities \<open>i1 .. i5\<close> of the source (lines 24 to 48), in the source's order.\<close>

definition invariants_i ::
    "moment \<Rightarrow> string \<Rightarrow> string \<Rightarrow> string \<Rightarrow> error + real \<times> real \<times> real \<times> real \<times> real" where
  "invariants_i result qA qB qC =
     bindE (density_matrix_of result [qC]) (\<lambda>rhoC.
     bindE (density_matrix_of result [qA, qB]) (\<lambda>rhoAB.
     bindE (density_matrix_of result [qA]) (\<lambda>rhoA.
     bindE (density_matrix_of result [qB]) (\<lambda>rhoB.
       let i1 = py_float (trace (matmul rhoA rhoA));
           i2 = py_float (trace (matmul rhoB rhoB));
           i3 = py_float (trace (matmul rhoC rhoC));
           tensorAB = kron rhoA rhoB;
           i4 = py_float (trace (matmul tensorAB rhoAB))
       in bindE (reshape222 (state_vector result)) (\<lambda>cstate.
            let i5 = (cmod (hdet cstate))\<^sup>2
            in Inr (i1, i2, i3, i4, i5))))))"

text \<open>The quantities \<open>j1 .. j5\<close> (lines 51 to 55); each line calls \<open>sqrt(i5)\<close> again.\<close>

definition invariants_j ::
    "real \<times> real \<times> real \<times> real \<times> real \<Rightarrow> error + real \<times> real \<times> real \<times> real \<times> real" where
  "invariants_j i = (case i of (i1, i2, i3, i4, i5) \<Rightarrow>
     bindE (py_sqrt i5) (\<lambda>s1. let j1 = (1/4) * (1 + i1 - i2 - i3 - 2 * s1) in
     bindE (py_sqrt i5) (\<lambda>s2. let j2 = (1/4) * (1 - i1 + i2 - i3 - 2 * s2) in
     bindE (py_sqrt i5) (\<lambda>s3. let j3 = (1/4) * (1 - i1 - i2 + i3 - 2 * s3) in
     bindE (py_sqrt i5) (\<lambda>s4. let j4 = s4 in
     bindE (py_sqrt i5) (\<lambda>s5. let j5 = (1/4) * (3 - 3 * i1 - 3 * i2 - i3 + 4 * i4 - 2 * s5) in
       Inr (j1, j2, j3, j4, j5)))))))"

definition rounded_j :: "real \<times> real \<times> real \<times> real \<times> real \<Rightarrow> real \<times> real \<times> real \<times> real \<times> real" where
  "rounded_j j = (case j of (j1, j2, j3, j4, j5) \<Rightarrow>
     (py_round j1 6, py_round j2 6, py_round j3 6, py_round j4 6, py_round j5 6))"

text \<open>The case split of lines 64 to 79, on the rounded values.\<close>

definition classify ::
    "real \<times> real \<times> real \<times> real \<times> real \<Rightarrow> string \<Rightarrow> string \<Rightarrow> string \<Rightarrow>
     bool \<times> string \<times> string list option" where
  "classify rj qA qB qC = (case rj of (rj1, rj2, rj3, rj4, rj5) \<Rightarrow>
     if isclose rj1 0 \<and> isclose rj2 0 \<and> isclose rj3 0 \<and> isclose rj4 0 \<and> isclose rj5 0
     then (False, ''fully_separable'', None)
     else if \<not> isclose rj1 0 \<and> isclose rj2 0 \<and> isclose rj3 0 \<and> isclose rj4 0 \<and> isclose rj5 0
     then (True, ''bipartite'', Some [qB, qC])
     else if isclose rj1 0 \<and> \<not> isclose rj2 0 \<and> isclose rj3 0 \<and> isclose rj4 0 \<and> isclose rj5 0
     then (True, ''bipartite'', Some [qA, qC])
     else if isclose rj1 0 \<and> isclose rj2 0 \<and> \<not> isclose rj3 0 \<and> isclose rj4 0 \<and> isclose rj5 0
     then (True, ''bipartite'', Some [qA, qB])
     else (True, ''tripartite'', Some [qA, qB, qC]))"

text \<open>
  \<open>detect_entanglement_tripartite\<close>. The source reads \<open>qubits[2]\<close> first, then
  \<open>qubits[0]\<close> and \<open>qubits[1]\<close>.
\<close>

definition detect_entanglement_tripartite ::
    "moment \<Rightarrow> string list \<Rightarrow> error + bool \<times> string \<times> string list option" where
  "detect_entanglement_tripartite result qubits =
     bindE (tuple_get qubits 2) (\<lambda>qC.
     bindE (tuple_get qubits 0) (\<lambda>qA.
     bindE (tuple_get qubits 1) (\<lambda>qB.
     bindE (invariants_i result qA qB qC) (\<lambda>i.
     bindE (invariants_j i) (\<lambda>j.
       Inr (classify (rounded_j j) qA qB qC))))))"


section \<open>Scenarios\<close>

text \<open>
  A member of \<open>currently_entangled\<close> is a qubit (\<open>NamedQubit(name)\<close>) or, through the
  simple scenario's detector, the empty tuple.
\<close>

datatype pyval = Qid string | EmptyTuple

datatype scenario =
    SimpleEntanglement
  | QuantumTeleportation string real
  | DeutschJozsa "complex list list"

text \<open>The keys of \<open>self.qubits\<close>, in insertion order.\<close>

fun qubit_names :: "scenario \<Rightarrow> string list" where
  "qubit_names SimpleEntanglement = [''alice'', ''bob'']"
| "qubit_names (QuantumTeleportation what_gate phase) = [''msg'', ''alice'', ''bob'']"
| "qubit_names (DeutschJozsa oracle) = [''q1'', ''q2'', ''control'']"

text \<open>
  \<open>description_sequence\<close>. The texts are written without the Polish diacritics of the
  source; the stepper only passes them on.
\<close>

fun description_sequence :: "scenario \<Rightarrow> string list" where
  "description_sequence SimpleEntanglement =
     [''Ustawienie kubitow w stan Bella'',
      ''Ustawienie kubitow w stan Bella'',
      ''Operacja na kubicie splatanym Alicji'',
      ''Operacja na kubicie splatanym Boba'',
      ''Pomiar kubitu Alicji'',
      ''Pomiar kubitu Boba'']"
| "description_sequence (QuantumTeleportation what_gate phase) =
     [''Ustawianie wartosci poczatkowej kubitow'',
      ''Inicjalizacja kubitow Alicji i Boba w stan Bella'',
      ''Inicjalizacja kubitow Alicji i Boba w stan Bella'',
      ''Wprowadzenie kubitu teleportowanego w stan superpozycji'',
      ''Wprowadzenie kubitu teleportowanego w stan superpozycji'',
      ''Pomiar kubitow Alicji i Boba'',
      ''Pomiar kubitow Alicji i Boba'',
      ''Aplikacja korekcji stanu'',
      ''Aplikacja korekcji stanu'']"
| "description_sequence (DeutschJozsa oracle) =
     [''Ustawienie kubitu kontrolnego w stan |1>'',
      ''Zadzialanie na wszystkie kubity bramka Hadamarda'',
      ''Zadzialanie na wszystkie kubity bramka Hadamarda'',
      ''Zadzialanie na wszystkie kubity bramka Hadamarda'',
      ''Dzialanie wyroczni'',
      ''Ponowne dzialanie bramkami Hadamarda'',
      ''Ponowne dzialanie bramkami Hadamarda'',
      ''Ponowne dzialanie bramkami Hadamarda'',
      ''Koncowy pomiar'',
      ''Koncowy pomiar'',
      ''Koncowy pomiar'']"

text \<open>
  The scenario method \<open>measurements\<close>: per moment \<open>None\<close>, a qubit, or (Deutsch-Jozsa)
  the empty tuple.
\<close>

fun scenario_measurements :: "scenario \<Rightarrow> pyval option list" where
  "scenario_measurements SimpleEntanglement =
     [None, None, None, None, Some (Qid ''alice''), Some (Qid ''bob'')]"
| "scenario_measurements (QuantumTeleportation what_gate phase) =
     [None, None, None, None, None, Some (Qid ''msg''), Some (Qid ''alice''), None, None]"
| "scenario_measurements (DeutschJozsa oracle) =
     [Some EmptyTuple, Some EmptyTuple, Some EmptyTuple, Some EmptyTuple,
      Some EmptyTuple, Some EmptyTuple, Some EmptyTuple, Some EmptyTuple,
      Some (Qid ''q1''), Some (Qid ''q2''), Some (Qid ''control'')]"

text \<open>
  \<open>detect_entanglement\<close>. In the simple scenario the conditional expression binds
  tighter than the comma: the result is the pair of \<open>alice\<close> and
  \<open>(bob if ... else ())\<close>. The three-qubit scenarios return the implicated qubits
  when the witness reports entanglement and \<open>None\<close> otherwise.
\<close>

definition tripartite_detector :: "moment \<Rightarrow> string list \<Rightarrow> error + pyval list option" where
  "tripartite_detector simulation_step names =
     bindE (detect_entanglement_tripartite simulation_step names)
       (\<lambda>(are_entangled, what_kind, what_entangled).
          Inr (if are_entangled then map_option (map Qid) what_entangled else None))"

fun detect_entanglement ::
    "(complex list \<Rightarrow> nat \<times> nat \<Rightarrow> real list) \<Rightarrow> scenario \<Rightarrow> moment \<Rightarrow> error + pyval list option" where
  "detect_entanglement schmidt SimpleEntanglement simulation_step =
     Inr (Some [Qid ''alice'',
                if detect_entanglement_bipartite schmidt simulation_step
                then Qid ''bob'' else EmptyTuple])"
| "detect_entanglement schmidt (QuantumTeleportation what_gate phase) simulation_step =
     tripartite_detector simulation_step (qubit_names (QuantumTeleportation what_gate phase))"
| "detect_entanglement schmidt (DeutschJozsa oracle) simulation_step =
     tripartite_detector simulation_step (qubit_names (DeutschJozsa oracle))"

section \<open>The stepper\<close>

record stepper =
  scenario_of :: scenario
  bloch_states :: "real list list list"
  sim_iter :: "moment list"
  desc_iter :: "string list"
  measurements_iter :: "pyval option list"
  currently_entangled :: "pyval set"

text \<open>
  The constructor. \<open>moments\<close> is what the simulator's moment iterator will produce for
  the scenario's circuit.
\<close>

definition init_stepper :: "scenario \<Rightarrow> moment list \<Rightarrow> stepper" where
  "init_stepper sc moments =
     \<lparr>scenario_of = sc, bloch_states = [], sim_iter = moments,
      desc_iter = description_sequence sc,
      measurements_iter = scenario_measurements sc,
      currently_entangled = {}\<rparr>"

fun mapE :: "('a \<Rightarrow> error + 'b) \<Rightarrow> 'a list \<Rightarrow> error + 'b list" where
  "mapE f [] = Inr []"
| "mapE f (x # xs) = bindE (f x) (\<lambda>y. bindE (mapE f xs) (\<lambda>ys. Inr (y # ys)))"

text \<open>
  The list \<open>[numpy.around(sim_step.bloch_vector_of(q), 6) for q in self.qubits.values()]\<close>.
  The Bloch vectors are single-precision arrays, and \<open>numpy.around\<close> rounds them in single
  precision: that rounding is the parameter \<open>around_single\<close>, called with the \<open>6\<close> of the source.
\<close>

definition bloch_row ::
    "(complex list \<Rightarrow> nat \<Rightarrow> nat \<Rightarrow> real list) \<Rightarrow> (real \<Rightarrow> nat \<Rightarrow> real) \<Rightarrow>
     moment \<Rightarrow> string list \<Rightarrow> error + real list list" where
  "bloch_row bloch around_single sim_step names =
     mapE (\<lambda>q. bindE (bloch_vector_of bloch sim_step q) (\<lambda>v. Inr (map (\<lambda>x. around_single x 6) v)))
          names"

text \<open>What one call \<open>next(sim.step())\<close> gives: a yielded triple, \<open>StopIteration\<close>, or an
  exception that escapes.\<close>

datatype outcome =
    Yielded moment string "pyval set"
  | StopIteration
  | Raised error

text \<open>
  The update of \<open>currently_entangled\<close> (lines 129 to 135).
\<close>

definition update_entangled :: "pyval set \<Rightarrow> pyval list option \<Rightarrow> pyval option \<Rightarrow> pyval set" where
  "update_entangled ce entangled measured =
     (let ce1 = (case entangled of None \<Rightarrow> ce | Some qids \<Rightarrow> ce \<union> set qids)
      in case measured of
           None \<Rightarrow> ce1
         | Some m \<Rightarrow>
             if m \<in> ce1
             then (let ce2 = ce1 - {m} in if card ce2 \<le> 1 then {} else ce2)
             else ce1)"

text \<open>
  \<open>step\<close>, up to its first \<open>yield\<close>. Each \<open>next\<close> on an exhausted iterator raises
  \<open>StopIteration\<close>, which the \<open>except\<close> clause turns into a plain return; whatever was
  mutated before stays mutated.
\<close>

definition step ::
    "(complex list \<Rightarrow> nat \<times> nat \<Rightarrow> real list) \<Rightarrow> (complex list \<Rightarrow> nat \<Rightarrow> nat \<Rightarrow> real list) \<Rightarrow>
     (real \<Rightarrow> nat \<Rightarrow> real) \<Rightarrow> stepper \<Rightarrow> outcome \<times> stepper" where
  "step schmidt bloch around_single s =
     (case sim_iter s of
        [] \<Rightarrow> (StopIteration, s)
      | sim_step # later \<Rightarrow>
          let s1 = s\<lparr>sim_iter := later\<rparr> in
          case detect_entanglement schmidt (scenario_of s1) sim_step of
            Inl e \<Rightarrow> (Raised e, s1)
          | Inr entangled \<Rightarrow>
              case bloch_row bloch around_single sim_step (qubit_names (scenario_of s1)) of
                Inl e \<Rightarrow> (Raised e, s1)
              | Inr bloch_vectors \<Rightarrow>
                  let s2 = s1\<lparr>bloch_states := bloch_states s1 @ [bloch_vectors]\<rparr> in
                  case measurements_iter s2 of
                    [] \<Rightarrow> (StopIteration, s2)
                  | measured # ms \<Rightarrow>
                      let s3 = s2\<lparr>measurements_iter := ms,
                                  currently_entangled :=
                                    update_entangled (currently_entangled s2) entangled measured\<rparr>
                      in case desc_iter s3 of
                           [] \<Rightarrow> (StopIteration, s3)
                         | d # ds \<Rightarrow>
                             (Yielded sim_step d (currently_entangled s3),
                              s3\<lparr>desc_iter := ds\<rparr>))"

text \<open>The stepper after \<open>n\<close> calls of \<open>next(sim.step())\<close>.\<close>

fun run ::
    "(complex list \<Rightarrow> nat \<times> nat \<Rightarrow> real list) \<Rightarrow> (complex list \<Rightarrow> nat \<Rightarrow> nat \<Rightarrow> real list) \<Rightarrow>
     (real \<Rightarrow> nat \<Rightarrow> real) \<Rightarrow> nat \<Rightarrow> stepper \<Rightarrow> stepper" where
  "run schmidt bloch around_single 0 s = s"
| "run schmidt bloch around_single (Suc n) s =
     run schmidt bloch around_single n (snd (step schmidt bloch around_single s))"

section \<open>Final checks\<close>

definition dict_get :: "('k \<rightharpoonup> 'v) \<Rightarrow> 'k \<Rightarrow> error + 'v" where
  "dict_get d k = (case d k of None \<Rightarrow> Inl KeyError | Some v \<Rightarrow> Inr v)"

definition py_last :: "'a list \<Rightarrow> error + 'a" where
  "py_last xs = (if xs = [] then Inl IndexError else Inr (last xs))"

text \<open>Elementwise \<open>==\<close> of two arrays of one shape, followed by \<open>.all()\<close>.\<close>

definition all_equal :: "real list \<Rightarrow> real list \<Rightarrow> bool" where
  "all_equal a b = list_all (\<lambda>(x, y). x = y) (zip a b)"

fun check_results :: "scenario \<Rightarrow> stepper \<Rightarrow> moment option \<Rightarrow> error + bool" where
  "check_results SimpleEntanglement s final_step = Inr True"
| "check_results (QuantumTeleportation what_gate phase) s final_step =
     bindE (tuple_get (bloch_states s) 0) (\<lambda>first.
     bindE (tuple_get first 0) (\<lambda>a.
     bindE (py_last (bloch_states s)) (\<lambda>final.
     bindE (tuple_get final 2) (\<lambda>b.
       Inr (all_equal a b)))))"
| "check_results (DeutschJozsa oracle) s final_step =
     (case final_step of
        None \<Rightarrow> Inl AttributeError
      | Some fs \<Rightarrow>
          bindE (dict_get (measurements fs) ''q1'') (\<lambda>m1.
          bindE (tuple_get m1 0) (\<lambda>v1.
            if v1 = 0
            then bindE (dict_get (measurements fs) ''q2'') (\<lambda>m2.
                 bindE (tuple_get m2 0) (\<lambda>v2. Inr (v2 = 0)))
            else Inr False)))"

section \<open>Circuits and the quantum state simulator\<close>

text \<open>
  The gates the scenarios use. \<open>X\<close>, \<open>Z\<close> and \<open>T\<close> are powers of the Pauli gates
  (\<open>T = Z ** 0.25\<close>), so that a gate raised to a real power is again of that form.
\<close>

datatype gate = H | CNOT | CZ | XPowGate real | ZPowGate real | MatrixGate "complex list list"

definition X :: gate where
  "X = XPowGate 1"

definition Z :: gate where
  "Z = ZPowGate 1"

definition T :: gate where
  "T = ZPowGate (1/4)"

text \<open>\<open>gate ** exponent\<close>; the scenarios raise only \<open>X\<close> and \<open>T\<close> to a power.\<close>

fun gate_pow :: "gate \<Rightarrow> real \<Rightarrow> gate" where
  "gate_pow (XPowGate e) t = XPowGate (e * t)"
| "gate_pow (ZPowGate e) t = ZPowGate (e * t)"
| "gate_pow g t = g"

datatype operation = On gate "string list" | Measure string

text \<open>The constructor of \<open>QuantumTeleportation\<close>: any string but \<open>"X"\<close> selects \<open>T\<close>.\<close>

definition setup_gate :: "string \<Rightarrow> gate" where
  "setup_gate what_gate = (if what_gate = ''X'' then X else T)"

text \<open>\<open>circuit_definition\<close>; with the insertion strategy \<open>NEW\<close> every operation is a
  moment of its own.\<close>

fun circuit_definition :: "scenario \<Rightarrow> operation list" where
  "circuit_definition SimpleEntanglement =
     [On H [''alice''],
      On CNOT [''alice'', ''bob''],
      On Z [''alice''],
      On Z [''bob''],
      Measure ''alice'',
      Measure ''bob'']"
| "circuit_definition (QuantumTeleportation what_gate phase) =
     [On (gate_pow (setup_gate what_gate) phase) [''msg''],
      On H [''alice''],
      On CNOT [''alice'', ''bob''],
      On CNOT [''msg'', ''alice''],
      On H [''msg''],
      Measure ''msg'',
      Measure ''alice'',
      On CNOT [''alice'', ''bob''],
      On CZ [''msg'', ''bob'']]"
| "circuit_definition (DeutschJozsa oracle) =
     [On X [''control''],
      On H [''q1''],
      On H [''q2''],
      On H [''control''],
      On (MatrixGate oracle) [''q1'', ''q2'', ''control''],
      On H [''q1''],
      On H [''q2''],
      On H [''control''],
      Measure ''q1'',
      Measure ''q2'',
      Measure ''control'']"

text \<open>
  The oracle of the Deutsch-Jozsa window: row \<open>i\<close> of the matrix has its \<open>1\<close> in the
  column named by the \<open>i\<close>-th digit of the string. The window builds a scenario only
  from a string its validator accepts: eight characters among \<open>1 .. 8\<close>, none repeated.
\<close>

definition digit_of :: "char \<Rightarrow> nat" where
  "digit_of c = of_char c - 48"

definition oracle_matrix :: "string \<Rightarrow> complex list list" where
  "oracle_matrix oracle_def_str =
     map (\<lambda>row_num. map (\<lambda>c. if c = row_num then 1 else 0) [1..<9]) (map digit_of oracle_def_str)"

definition acceptable :: "string \<Rightarrow> bool" where
  "acceptable s = (length s = 8 \<and> set s \<subseteq> set ''12345678'' \<and> distinct s)"

definition create_simulator :: "string \<Rightarrow> scenario option" where
  "create_simulator oracle_def_str =
     (if acceptable oracle_def_str then Some (DeutschJozsa (oracle_matrix oracle_def_str))
      else None)"

text \<open>
  The simulator is an external collaborator. What follows is its contract in exact
  arithmetic: the register starts in \<open>|0..0>\<close> with the qubits in sorted order; a gate
  multiplies the amplitudes by its unitary matrix on the qubits it is applied to; a
  measurement of a qubit has an outcome of nonzero probability, projects the state on
  it, renormalises, and records the outcome under the qubit's name; the record is kept
  from moment to moment; one snapshot is produced per moment.
\<close>

fun unitary :: "gate \<Rightarrow> complex list list" where
  "unitary H = [[1 / sqrt 2, 1 / sqrt 2], [1 / sqrt 2, - (1 / sqrt 2)]]"
| "unitary CNOT = [[1, 0, 0, 0], [0, 1, 0, 0], [0, 0, 0, 1], [0, 0, 1, 0]]"
| "unitary CZ = [[1, 0, 0, 0], [0, 1, 0, 0], [0, 0, 1, 0], [0, 0, 0, -1]]"
| "unitary (XPowGate e) =
     [[(1 + cis (pi * e)) / 2, (1 - cis (pi * e)) / 2],
      [(1 - cis (pi * e)) / 2, (1 + cis (pi * e)) / 2]]"
| "unitary (ZPowGate e) = [[1, 0], [0, cis (pi * e)]]"
| "unitary (MatrixGate m) = m"

text \<open>The number formed by the bits of the basis index \<open>i\<close> on the axes \<open>ks\<close>.\<close>

definition sub_index :: "nat \<Rightarrow> nat list \<Rightarrow> nat \<Rightarrow> nat" where
  "sub_index n ks i =
     sum_list (map (\<lambda>t. bit_at n i (ks ! t) * 2 ^ (length ks - 1 - t)) [0..<length ks])"

definition apply_matrix :: "complex list list \<Rightarrow> nat \<Rightarrow> nat list \<Rightarrow> complex list \<Rightarrow> complex list" where
  "apply_matrix m n ks sv =
     map (\<lambda>i. let r = sub_index n ks i; base = i - spread n ks r
              in sum_list (map (\<lambda>c. m ! r ! c * sv ! (base + spread n ks c)) [0..<2 ^ length ks]))
         [0..<2 ^ n]"

definition outcome_probability :: "nat \<Rightarrow> nat \<Rightarrow> nat \<Rightarrow> complex list \<Rightarrow> real" where
  "outcome_probability n k b sv =
     sum_list (map (\<lambda>i. if bit_at n i k = b then (cmod (sv ! i))\<^sup>2 else 0) [0..<2 ^ n])"

definition project :: "nat \<Rightarrow> nat \<Rightarrow> nat \<Rightarrow> complex list \<Rightarrow> complex list" where
  "project n k b sv =
     map (\<lambda>i. if bit_at n i k = b
              then sv ! i / complex_of_real (sqrt (outcome_probability n k b sv)) else 0)
         [0..<2 ^ n]"

text \<open>
  One moment. A measurement takes its outcome from the list \<open>outs\<close>; an outcome of
  probability zero cannot occur (\<open>None\<close>).
\<close>

fun act :: "operation \<Rightarrow> nat list \<Rightarrow> moment \<Rightarrow> (moment \<times> nat list) option" where
  "act (On g qs) outs m =
     (case axes_of (qubit_order m) qs of
        Inl e \<Rightarrow> None
      | Inr ks \<Rightarrow>
          Some (m\<lparr>state_vector :=
                    apply_matrix (unitary g) (length (qubit_order m)) ks (state_vector m)\<rparr>,
                outs))"
| "act (Measure q) outs m =
     (case outs of
        [] \<Rightarrow> None
      | b # later \<Rightarrow>
          (case index_of q (qubit_order m) of
             None \<Rightarrow> None
           | Some k \<Rightarrow>
               if outcome_probability (length (qubit_order m)) k b (state_vector m) = 0
               then None
               else Some (m\<lparr>state_vector :=
                               project (length (qubit_order m)) k b (state_vector m),
                             measurements := (measurements m)(q \<mapsto> [int b])\<rparr>,
                          later)))"

fun simulate_moment_steps :: "operation list \<Rightarrow> nat list \<Rightarrow> moment \<Rightarrow> moment list option" where
  "simulate_moment_steps [] outs m = Some []"
| "simulate_moment_steps (op # ops) outs m =
     (case act op outs m of
        None \<Rightarrow> None
      | Some (m1, later) \<Rightarrow> map_option ((#) m1) (simulate_moment_steps ops later m1))"

text \<open>The qubits of a scenario in the simulator's (sorted) order, and the start.\<close>

fun sorted_qubits :: "scenario \<Rightarrow> string list" where
  "sorted_qubits SimpleEntanglement = [''alice'', ''bob'']"
| "sorted_qubits (QuantumTeleportation what_gate phase) = [''alice'', ''bob'', ''msg'']"
| "sorted_qubits (DeutschJozsa oracle) = [''control'', ''q1'', ''q2'']"

definition initial_moment :: "scenario \<Rightarrow> moment" where
  "initial_moment sc =
     \<lparr>qubit_order = sorted_qubits sc,
      state_vector = 1 # replicate (2 ^ length (sorted_qubits sc) - 1) 0,
      measurements = Map.empty\<rparr>"

text \<open>The snapshots of a scenario's circuit for given measurement outcomes.\<close>

definition scenario_moments :: "scenario \<Rightarrow> nat list \<Rightarrow> moment list option" where
  "scenario_moments sc outs =
     simulate_moment_steps (circuit_definition sc) outs (initial_moment sc)"

section \<open>Predicates of the statements\<close>

text \<open>
  Exactly one entry of a list is \<open>1\<close> and every other entry is \<open>0\<close>.
\<close>

definition one_hot :: "real list \<Rightarrow> bool" where
  "one_hot xs = (\<exists>i<length xs. xs ! i = 1 \<and> (\<forall>j<length xs. j \<noteq> i \<longrightarrow> xs ! j = 0))"

text \<open>A finite set with no member or at least two.\<close>

definition size_ok :: "pyval set \<Rightarrow> bool" where
  "size_ok ce = (finite ce \<and> (card ce = 0 \<or> 2 \<le> card ce))"

text \<open>The second component of the simple scenario's detector result.\<close>

definition simple_member :: "(complex list \<Rightarrow> nat \<times> nat \<Rightarrow> real list) \<Rightarrow> moment \<Rightarrow> pyval" where
  "simple_member schmidt m = (if detect_entanglement_bipartite schmidt m then Qid ''bob'' else EmptyTuple)"

text \<open>
  A snapshot of a three-qubit circuit that knows the qubits \<open>qs\<close>: three axes, eight
  amplitudes.
\<close>

definition three_qubit_snapshot :: "moment \<Rightarrow> string list \<Rightarrow> bool" where
  "three_qubit_snapshot result qs =
     (length (qubit_order result) = 3 \<and> length (state_vector result) = 8 \<and>
      set qs \<subseteq> set (qubit_order result))"

text \<open>
  The Bloch vector of the qubit on axis \<open>k\<close> in exact arithmetic, read off the one-qubit
  reduced density matrix: what the simulator's single-precision routine approximates.
\<close>

definition exact_bloch :: "complex list \<Rightarrow> nat \<Rightarrow> nat \<Rightarrow> real list" where
  "exact_bloch sv n k =
     (let rho = reduced_density sv n [k]
      in [2 * Re (rho ! 0 ! 1), 2 * Im (rho ! 1 ! 0), Re (rho ! 0 ! 0 - rho ! 1 ! 1)])"

section \<open>Example snapshots\<close>

text \<open>\<open>3/5 |000> + 4/5 |110>\<close>: the first two qubits entangled, the third apart.\<close>

definition ex_pair_ab :: moment where
  "ex_pair_ab = \<lparr>qubit_order = [''a'', ''b'', ''c''],
                 state_vector = [3/5, 0, 0, 0, 0, 0, 4/5, 0],
                 measurements = Map.empty\<rparr>"

text \<open>\<open>|00>\<close> on two qubits.\<close>

definition ex_ket00 :: moment where
  "ex_ket00 = \<lparr>qubit_order = [''alice'', ''bob''],
               state_vector = [1, 0, 0, 0],
               measurements = Map.empty\<rparr>"

section \<open>Notions of the statements about the invariants\<close>

text \<open>A square matrix of dimension \<open>d\<close> equal to its conjugate transpose.\<close>

definition hermitian :: "nat \<Rightarrow> complex list list \<Rightarrow> bool" where
  "hermitian d A =
     (length A = d \<and> (\<forall>i<d. length (A ! i) = d) \<and> (\<forall>i<d. \<forall>j<d. A ! j ! i = cnj (A ! i ! j)))"

text \<open>
  The polynomial \<open>h\<close> as the specification writes it: four squares, minus twice six
  products, plus four times two products.
\<close>

definition spec_h :: "(nat \<Rightarrow> nat \<Rightarrow> nat \<Rightarrow> complex) \<Rightarrow> complex" where
  "spec_h a =
     (a 0 0 0)\<^sup>2 * (a 1 1 1)\<^sup>2 + (a 0 0 1)\<^sup>2 * (a 1 1 0)\<^sup>2 +
     (a 0 1 0)\<^sup>2 * (a 1 0 1)\<^sup>2 + (a 1 0 0)\<^sup>2 * (a 0 1 1)\<^sup>2
     - 2 * (a 0 0 0 * a 0 0 1 * a 1 1 0 * a 1 1 1 + a 0 0 0 * a 0 1 0 * a 1 0 1 * a 1 1 1 +
            a 0 0 0 * a 0 1 1 * a 1 0 0 * a 1 1 1 + a 0 0 1 * a 0 1 0 * a 1 0 1 * a 1 1 0 +
            a 0 0 1 * a 0 1 1 * a 1 1 0 * a 1 0 0 + a 0 1 0 * a 0 1 1 * a 1 0 1 * a 1 0 0)
     + 4 * (a 0 0 0 * a 0 1 1 * a 1 0 1 * a 1 1 0 + a 0 0 1 * a 0 1 0 * a 1 0 0 * a 1 1 1)"

text \<open>
  The state vector of the product of three one-qubit states, one per axis of the
  simulator, and a one-qubit state of norm one.
\<close>

definition product_state ::
    "complex \<times> complex \<Rightarrow> complex \<times> complex \<Rightarrow> complex \<times> complex \<Rightarrow> complex list" where
  "product_state u v w =
     [fst u * fst v * fst w, fst u * fst v * snd w, fst u * snd v * fst w, fst u * snd v * snd w,
      snd u * fst v * fst w, snd u * fst v * snd w, snd u * snd v * fst w, snd u * snd v * snd w]"

definition unit_state :: "complex \<times> complex \<Rightarrow> bool" where
  "unit_state u = ((cmod (fst u))\<^sup>2 + (cmod (snd u))\<^sup>2 = 1)"

text \<open>\<open>3/5 |00> + 4/5 |11>\<close> on two qubits; its Schmidt coefficients are \<open>4/5\<close> and \<open>3/5\<close>.\<close>

definition ex_pair :: moment where
  "ex_pair = \<lparr>qubit_order = [''alice'', ''bob''],
              state_vector = [3/5, 0, 0, 4/5],
              measurements = Map.empty\<rparr>"

text \<open>A Schmidt routine that is right on the two example states.\<close>

definition ex_schmidt :: "complex list \<Rightarrow> nat \<times> nat \<Rightarrow> real list" where
  "ex_schmidt sv shape = (if sv = [3/5, 0, 0, 4/5] then [4/5, 3/5] else [1, 0])"

text \<open>
  Six snapshots shaped like a run of the simple scenario: a product state, three
  entangled states, and product states after the measurements.
\<close>

definition ex_simple_run :: "moment list" where
  "ex_simple_run = [ex_ket00, ex_pair, ex_pair, ex_pair, ex_ket00, ex_ket00]"

text \<open>The density matrix \<open>|x><x|\<close> of a one-qubit state.\<close>

definition projector :: "complex \<times> complex \<Rightarrow> complex list list" where
  "projector x =
     [[fst x * cnj (fst x), fst x * cnj (snd x)], [snd x * cnj (fst x), snd x * cnj (snd x)]]"

text \<open>
  A product state on the axes \<open>alice\<close>, \<open>bob\<close>, \<open>msg\<close>:
  \<open>(3/5 |0> + 4/5 |1>) (x) |0> (x) i |1>\<close>.
\<close>

definition ex_product :: moment where
  "ex_product = \<lparr>qubit_order = [''alice'', ''bob'', ''msg''],
                 state_vector = product_state (3/5, 4/5) (1, 0) (0, \<i>),
                 measurements = Map.empty\<rparr>"



section \<open>Notions of the statements about the Deutsch-Jozsa scenario\<close>

text \<open>
  The permutation string of the oracle \<open>|x, c> \<mapsto> |x, c XOR f x>\<close> for a function \<open>f\<close> of
  the two input bits (\<open>x = 2 * q1 + q2\<close>): the rows \<open>2x + 1\<close> and \<open>2x + 2\<close> are exchanged
  exactly when \<open>f x\<close> holds. A function is balanced when it holds on two of the four
  inputs.
\<close>

definition digit_char :: "nat \<Rightarrow> char" where
  "digit_char k = ''0123456789'' ! k"

definition dj_string :: "(nat \<Rightarrow> bool) \<Rightarrow> string" where
  "dj_string f =
     concat (map (\<lambda>x. if f x then [digit_char (2 * x + 2), digit_char (2 * x + 1)]
                       else [digit_char (2 * x + 1), digit_char (2 * x + 2)]) [0..<4])"

definition balanced :: "(nat \<Rightarrow> bool) \<Rightarrow> bool" where
  "balanced f = (length (filter f [0..<4]) = 2)"

text \<open>A state vector with no amplitude outside the basis state \<open>k\<close>.\<close>

definition supported :: "complex list \<Rightarrow> nat \<Rightarrow> bool" where
  "supported sv k = (\<forall>i<length sv. i \<noteq> k \<longrightarrow> sv ! i = 0)"

text \<open>The sign \<open>(-1) ^ f x\<close>.\<close>

definition sign_of :: "bool \<Rightarrow> complex" where
  "sign_of b = (if b then - 1 else 1)"

text \<open>
  The state the eight gates of the Deutsch-Jozsa circuit produce for the oracle of \<open>f\<close>
  (see \<open>dj_gates\<close>), axes \<open>control\<close>, \<open>q1\<close>, \<open>q2\<close>.
\<close>

definition dj_final_state :: "(nat \<Rightarrow> bool) \<Rightarrow> complex list" where
  "dj_final_state f =
     [0, 0, 0, 0,
      (sign_of (f 0) + sign_of (f 1) + sign_of (f 2) + sign_of (f 3)) / 4,
      (sign_of (f 0) - sign_of (f 1) + sign_of (f 2) - sign_of (f 3)) / 4,
      (sign_of (f 0) + sign_of (f 1) - sign_of (f 2) - sign_of (f 3)) / 4,
      (sign_of (f 0) - sign_of (f 1) - sign_of (f 2) + sign_of (f 3)) / 4]"

section \<open>Basic facts\<close>

lemma bindE_Inr [simp]: "bindE (Inr v) f = f v"
  by (simp add: bindE_def)

lemma bindE_Inl [simp]: "bindE (Inl e) f = Inl e"
  by (simp add: bindE_def)

lemma bindE_eq_Inr: "bindE r f = Inr y \<longleftrightarrow> (\<exists>v. r = Inr v \<and> f v = Inr y)"
  by (cases r) auto

lemma bindE_eq_Inl: "bindE r f = Inl e \<longleftrightarrow> r = Inl e \<or> (\<exists>v. r = Inr v \<and> f v = Inl e)"
  by (cases r) auto

lemma upt_1: "[0..<1] = [0]"
  by simp

lemma upt_2: "[0..<2] = [0, 1]"
  by (simp add: upt_conv_Cons)

lemma upt_3: "[0..<3] = [0, 1, 2]"
  by (simp add: upt_conv_Cons)

lemma upt_4: "[0..<4] = [0, 1, 2, 3]"
  by (simp add: upt_conv_Cons)

lemma upt_8: "[0..<8] = [0, 1, 2, 3, 4, 5, 6, 7]"
  by (simp add: upt_conv_Cons)

lemmas upts = upt_1 upt_2 upt_3 upt_4 upt_8

lemmas eval_defs = density_matrix_of_def reduced_density_def spread_def bit_at_def Let_def upts
  matmul_def trace_def kron_def py_float_def reshape222_def hdet_def

text \<open>With the default tolerances, only zero is close to zero.\<close>

lemma isclose_zero: "isclose x 0 \<longleftrightarrow> x = 0"
  unfolding isclose_def by auto

section \<open>The bipartite verdict\<close>

lemma count_nonzero_map: "count_nonzero (map P xs) = int (length (filter P xs))"
  by (induction xs) (auto simp: count_nonzero_def)

lemma filter_two_le:
  fixes xs :: "real list"
  shows "length (filter (\<lambda>x. x = 1) xs) + length (filter (\<lambda>x. x = 0) xs) \<le> length xs"
  by (induction xs) auto

lemma filter_all_zero:
  fixes xs :: "real list"
  shows "length (filter (\<lambda>x. x = 0) xs) = length xs \<longleftrightarrow> (\<forall>j<length xs. xs ! j = 0)"
  by (metis (mono_tags, lifting) filter_id_conv length_filter_less less_irrefl in_set_conv_nth)

lemma one_hot_Cons:
  "one_hot (x # xs) \<longleftrightarrow>
     (x = 1 \<and> (\<forall>j<length xs. xs ! j = 0)) \<or> (x = 0 \<and> one_hot xs)"
  unfolding one_hot_def
  by (simp add: Ex_less_Suc2 All_less_Suc2) blast

lemma one_hot_Nil: "\<not> one_hot []"
  by (simp add: one_hot_def)

lemma one_hot_count:
  fixes xs :: "real list"
  shows "(int (length (filter (\<lambda>x. x = 1) xs)) = 1 \<and>
          int (length (filter (\<lambda>x. x = 0) xs)) = int (length xs) - 1) \<longleftrightarrow> one_hot xs"
proof (induction xs)
  case Nil
  then show ?case by (simp add: one_hot_def)
next
  case (Cons x xs)
  have le: "length (filter (\<lambda>x. x = 1) xs) + length (filter (\<lambda>x. x = 0) xs) \<le> length xs"
    by (rule filter_two_le)
  consider "x = 1" | "x = 0" | "x \<noteq> 1" "x \<noteq> 0" by blast
  then show ?case
  proof cases
    case 1
    then show ?thesis using le filter_all_zero[of xs]
      by (auto simp: one_hot_Cons)
  next
    case 2
    then show ?thesis using Cons.IH by (auto simp: one_hot_Cons)
  next
    case 3
    then show ?thesis using le by (auto simp: one_hot_Cons)
  qed
qed

text \<open>
  Claim C1. For every state vector given to the bipartite witness, the witness answers
  \<open>False\<close> (not entangled) if and only if, among the Schmidt coefficients rounded to 6
  decimals, exactly one equals 1 and every other equals 0; for any other rounded
  coefficients it answers \<open>True\<close> (entangled).
\<close>

theorem bipartite_verdict:
  "(detect_entanglement_bipartite schmidt result = False \<longleftrightarrow>
      one_hot (map (\<lambda>c. around c 6) (schmidt (state_vector result) (2, 2)))) \<and>
   (detect_entanglement_bipartite schmidt result = True \<longleftrightarrow>
      \<not> one_hot (map (\<lambda>c. around c 6) (schmidt (state_vector result) (2, 2))))"
proof -
  let ?r = "map (\<lambda>c. around c 6) (schmidt (state_vector result) (2, 2))"
  have "detect_entanglement_bipartite schmidt result = False \<longleftrightarrow> one_hot ?r"
    unfolding detect_entanglement_bipartite_def Let_def
    using one_hot_count[of ?r] by (simp add: count_nonzero_map np_size_def)
  then show ?thesis by auto
qed

theorem bipartite_verdict_witness:
  "detect_entanglement_bipartite (\<lambda>sv shape. [1, 0]) ex_ket00 = False \<and>
   one_hot (map (\<lambda>c. around c 6) [1, 0]) \<and>
   detect_entanglement_bipartite (\<lambda>sv shape. [4/5, 3/5]) ex_ket00 = True \<and>
   \<not> one_hot (map (\<lambda>c. around c 6) [4/5, 3/5])"
proof -
  have a: "one_hot (map (\<lambda>c. around c 6) [1, 0])"
    by (simp add: one_hot_Cons around_def rint_def Let_def)
  have b: "\<not> one_hot (map (\<lambda>c. around c 6) [4/5, 3/5])"
    by (simp add: one_hot_Cons one_hot_Nil around_def rint_def Let_def)
  from a have "detect_entanglement_bipartite (\<lambda>sv shape. [1, 0]) ex_ket00 = False"
    using bipartite_verdict[of "\<lambda>sv shape. [1, 0]" ex_ket00] by blast
  moreover from b have "detect_entanglement_bipartite (\<lambda>sv shape. [4/5, 3/5]) ex_ket00 = True"
    using bipartite_verdict[of "\<lambda>sv shape. [4/5, 3/5]" ex_ket00] by blast
  ultimately show ?thesis using a b by blast
qed

section \<open>The tripartite classification\<close>

lemma detect_tripartite_3:
  "detect_entanglement_tripartite result [qA, qB, qC] =
     bindE (invariants_i result qA qB qC) (\<lambda>i.
     bindE (invariants_j i) (\<lambda>j. Inr (classify (rounded_j j) qA qB qC)))"
  by (simp add: detect_entanglement_tripartite_def tuple_get_def)

lemma classify_zero:
  "classify (r1, r2, r3, r4, r5) qA qB qC =
     (if r1 = 0 \<and> r2 = 0 \<and> r3 = 0 \<and> r4 = 0 \<and> r5 = 0
      then (False, ''fully_separable'', None)
      else if r1 \<noteq> 0 \<and> r2 = 0 \<and> r3 = 0 \<and> r4 = 0 \<and> r5 = 0
      then (True, ''bipartite'', Some [qB, qC])
      else if r2 \<noteq> 0 \<and> r1 = 0 \<and> r3 = 0 \<and> r4 = 0 \<and> r5 = 0
      then (True, ''bipartite'', Some [qA, qC])
      else if r3 \<noteq> 0 \<and> r1 = 0 \<and> r2 = 0 \<and> r4 = 0 \<and> r5 = 0
      then (True, ''bipartite'', Some [qA, qB])
      else (True, ''tripartite'', Some [qA, qB, qC]))"
  unfolding classify_def by (simp add: isclose_zero)


lemma ex_pair_ab_i:
  "invariants_i ex_pair_ab ''a'' ''b'' ''c'' = Inr (337/625, 337/625, 1, 193/625, 0)"
  by (simp add: invariants_i_def ex_pair_ab_def eval_defs power2_eq_square)




section \<open>No domain failure in the tripartite witness\<close>

lemma py_sqrt_nonneg: "0 \<le> x \<Longrightarrow> py_sqrt x = Inr (sqrt x)"
  by (simp add: py_sqrt_def)

lemma invariants_i_i5:
  assumes "invariants_i result qA qB qC = Inr (i1, i2, i3, i4, i5)"
  shows "\<exists>cstate. reshape222 (state_vector result) = Inr cstate \<and> i5 = (cmod (hdet cstate))\<^sup>2"
  using assms unfolding invariants_i_def
  by (auto simp: bindE_eq_Inr Let_def)

lemma invariants_j_nonneg:
  assumes "0 \<le> i5"
  shows "invariants_j (i1, i2, i3, i4, i5) =
     Inr ((1/4) * (1 + i1 - i2 - i3 - 2 * sqrt i5),
          (1/4) * (1 - i1 + i2 - i3 - 2 * sqrt i5),
          (1/4) * (1 - i1 - i2 + i3 - 2 * sqrt i5),
          sqrt i5,
          (1/4) * (3 - 3 * i1 - 3 * i2 - i3 + 4 * i4 - 2 * sqrt i5))"
  unfolding invariants_j_def using assms by (simp add: py_sqrt_nonneg)

lemma axes_of_error: "axes_of order qs = Inl e \<Longrightarrow> e = KeyError"
  by (induction qs arbitrary: e) (auto simp: bindE_eq_Inl split: option.splits)

lemma density_matrix_of_error:
  "density_matrix_of result qs = Inl e \<Longrightarrow> e = KeyError \<or> e = RepeatedQubitError"
  unfolding density_matrix_of_def
  by (auto simp: bindE_eq_Inl split: if_splits dest: axes_of_error)

lemma reshape222_error: "reshape222 sv = Inl e \<Longrightarrow> e = ReshapeError"
  unfolding reshape222_def by (auto split: if_splits)

lemma invariants_i_error:
  "invariants_i result qA qB qC = Inl e \<Longrightarrow>
     e = KeyError \<or> e = RepeatedQubitError \<or> e = ReshapeError"
  unfolding invariants_i_def
  by (auto simp: bindE_eq_Inl Let_def dest: density_matrix_of_error reshape222_error)

lemma invariants_j_total:
  assumes "invariants_i result qA qB qC = Inr i"
  shows "\<exists>j. invariants_j i = Inr j"
proof -
  obtain i1 i2 i3 i4 i5 where i: "i = (i1, i2, i3, i4, i5)" by (cases i) auto
  from invariants_i_i5[OF assms[unfolded i]] have "0 \<le> i5" by auto
  then show ?thesis unfolding i using invariants_j_nonneg by blast
qed

lemma tripartite_error:
  assumes "detect_entanglement_tripartite result qubits = Inl e"
  shows "e = IndexError \<or> e = KeyError \<or> e = RepeatedQubitError \<or> e = ReshapeError"
  using assms unfolding detect_entanglement_tripartite_def tuple_get_def
  by (auto simp: bindE_eq_Inl split: if_splits dest: invariants_i_error invariants_j_total)

lemma index_of_mem: "q \<in> set order \<Longrightarrow> \<exists>k. index_of q order = Some k"
  by (induction order) auto

lemma index_of_nth: "index_of q order = Some k \<Longrightarrow> k < length order \<and> order ! k = q"
  by (induction order arbitrary: k) (auto split: if_splits)

lemma axes_of_nth:
  "axes_of order qs = Inr ks \<Longrightarrow> length ks = length qs \<and> (\<forall>t<length qs. order ! (ks ! t) = qs ! t)"
proof (induction qs arbitrary: ks)
  case Nil
  then show ?case by simp
next
  case (Cons q qs)
  from Cons.prems obtain k ks' where k: "index_of q order = Some k"
    and ks': "axes_of order qs = Inr ks'" and ks: "ks = k # ks'"
    by (auto simp: bindE_eq_Inr split: option.splits)
  from Cons.IH[OF ks'] index_of_nth[OF k] show ?case
    unfolding ks by (auto simp: nth_Cons split: nat.splits)
qed

lemma axes_of_distinct:
  assumes "axes_of order qs = Inr ks" and "distinct qs"
  shows "distinct ks"
proof -
  from axes_of_nth[OF assms(1)] have len: "length ks = length qs"
    and nth: "\<And>t. t < length qs \<Longrightarrow> order ! (ks ! t) = qs ! t" by auto
  show ?thesis unfolding distinct_conv_nth
  proof (intro allI impI)
    fix i j assume "i < length ks" "j < length ks" "i \<noteq> j"
    with assms(2) len have "qs ! i \<noteq> qs ! j" by (simp add: nth_eq_iff_index_eq)
    with nth[of i] nth[of j] \<open>i < length ks\<close> \<open>j < length ks\<close> len
    show "ks ! i \<noteq> ks ! j" by auto
  qed
qed


lemma axes_of_total: "set qs \<subseteq> set order \<Longrightarrow> \<exists>ks. axes_of order qs = Inr ks"
proof (induction qs)
  case Nil
  then show ?case by simp
next
  case (Cons q qs)
  then obtain ks where "axes_of order qs = Inr ks" by auto
  moreover from Cons.prems obtain k where "index_of q order = Some k"
    using index_of_mem[of q order] by auto
  ultimately show ?case by simp
qed

lemma density_matrix_of_total:
  assumes "set qs \<subseteq> set (qubit_order result)" and "distinct qs"
  shows "\<exists>rho. density_matrix_of result qs = Inr rho"
proof -
  from axes_of_total[OF assms(1)] obtain ks where ks: "axes_of (qubit_order result) qs = Inr ks" ..
  from axes_of_distinct[OF ks assms(2)] show ?thesis
    unfolding density_matrix_of_def by (simp add: ks)
qed

lemma density_matrix_of_repeated:
  assumes "q \<in> set (qubit_order result)"
  shows "density_matrix_of result [q, q] = Inl RepeatedQubitError"
proof -
  from index_of_mem[OF assms] obtain k where "index_of q (qubit_order result) = Some k" ..
  then show ?thesis unfolding density_matrix_of_def by simp
qed

lemma invariants_i_total:
  assumes "three_qubit_snapshot result [qA, qB, qC]" and "qA \<noteq> qB"
  shows "\<exists>i. invariants_i result qA qB qC = Inr i"
proof -
  from assms(1) have sub: "set [qC] \<subseteq> set (qubit_order result)"
      "set [qA, qB] \<subseteq> set (qubit_order result)"
      "set [qA] \<subseteq> set (qubit_order result)" "set [qB] \<subseteq> set (qubit_order result)"
    and len: "length (state_vector result) = 8"
    by (auto simp: three_qubit_snapshot_def)
  from assms(2) have d: "distinct [qC]" "distinct [qA, qB]" "distinct [qA]" "distinct [qB]"
    by simp_all
  from density_matrix_of_total[OF sub(1) d(1)] density_matrix_of_total[OF sub(2) d(2)]
       density_matrix_of_total[OF sub(3) d(3)] density_matrix_of_total[OF sub(4) d(4)]
  obtain rhoC rhoAB rhoA rhoB where
    "density_matrix_of result [qC] = Inr rhoC" "density_matrix_of result [qA, qB] = Inr rhoAB"
    "density_matrix_of result [qA] = Inr rhoA" "density_matrix_of result [qB] = Inr rhoB"
    by blast
  then show ?thesis using len
    by (simp add: invariants_i_def Let_def reshape222_def)
qed

lemma invariants_i_repeated:
  assumes "three_qubit_snapshot result [qA, qA, qC]"
  shows "invariants_i result qA qA qC = Inl RepeatedQubitError"
proof -
  from assms have "set [qC] \<subseteq> set (qubit_order result)" and a: "qA \<in> set (qubit_order result)"
    by (auto simp: three_qubit_snapshot_def)
  from density_matrix_of_total[OF this(1)] obtain rhoC where
    "density_matrix_of result [qC] = Inr rhoC" by auto
  with density_matrix_of_repeated[OF a] show ?thesis
    by (simp add: invariants_i_def)
qed

lemma classify_shape:
  "classify rj qA qB qC = (are, kind, what) \<Longrightarrow>
     (\<not> are \<and> kind = ''fully_separable'' \<and> what = None) \<or>
     (are \<and> kind = ''bipartite'' \<and> what \<in> {Some [qB, qC], Some [qA, qC], Some [qA, qB]}) \<or>
     (are \<and> kind = ''tripartite'' \<and> what = Some [qA, qB, qC])"
  unfolding classify_def by (auto split: prod.splits if_splits)

lemma tripartite_total:
  assumes "three_qubit_snapshot result [qA, qB, qC]" and "qA \<noteq> qB"
  shows "\<exists>are kind what. detect_entanglement_tripartite result [qA, qB, qC] = Inr (are, kind, what) \<and>
     ((\<not> are \<and> kind = ''fully_separable'' \<and> what = None) \<or>
      (are \<and> kind = ''bipartite'' \<and> what \<in> {Some [qB, qC], Some [qA, qC], Some [qA, qB]}) \<or>
      (are \<and> kind = ''tripartite'' \<and> what = Some [qA, qB, qC]))"
proof -
  from invariants_i_total[OF assms] obtain i where i: "invariants_i result qA qB qC = Inr i" ..
  from invariants_j_total[OF i] obtain j where j: "invariants_j i = Inr j" ..
  obtain are kind what where c: "classify (rounded_j j) qA qB qC = (are, kind, what)"
    by (cases "classify (rounded_j j) qA qB qC") auto
  have "detect_entanglement_tripartite result [qA, qB, qC] = Inr (are, kind, what)"
    by (simp add: detect_tripartite_3 i j c)
  with classify_shape[OF c] show ?thesis by blast
qed

lemma tripartite_repeated:
  assumes "three_qubit_snapshot result [qA, qA, qC]"
  shows "detect_entanglement_tripartite result [qA, qA, qC] = Inl RepeatedQubitError"
  by (simp add: detect_tripartite_3 invariants_i_repeated[OF assms])

lemma tripartite_detector_total:
  assumes "three_qubit_snapshot result [qA, qB, qC]" and "qA \<noteq> qB"
  shows "\<exists>v. tripartite_detector result [qA, qB, qC] = Inr v"
proof -
  from tripartite_total[OF assms] obtain are kind what where
    "detect_entanglement_tripartite result [qA, qB, qC] = Inr (are, kind, what)" by blast
  then show ?thesis by (simp add: tripartite_detector_def)
qed

text \<open>
  Claim C9. No entanglement-detection call raises on the snapshots of the scenario's own
  circuit. The tripartite witness never ends in the math domain error, whatever the
  snapshot and the qubit tuple: the value \<open>i5\<close> handed to every square root is a squared
  absolute value, hence nonnegative, and all five square roots succeed. On a snapshot of
  a three-qubit circuit that knows the three qubits, the first two of them different, the
  witness returns one of the five verdicts of its case split; when the first two qubits
  are the same qubit the simulator refuses the two-qubit density matrix. The detector of
  each scenario is called with the scenario's own qubits, and returns: in the two
  three-qubit scenarios on every three-qubit snapshot that knows them, in the simple
  scenario on every snapshot (the Schmidt routine is taken to return its coefficients).
\<close>

theorem tripartite_never_raises:
  "detect_entanglement_tripartite result qubits \<noteq> Inl MathDomainError \<and>
   (\<forall>i1 i2 i3 i4 i5. invariants_i result qA qB qC = Inr (i1, i2, i3, i4, i5) \<longrightarrow>
      0 \<le> i5 \<and> py_sqrt i5 = Inr (sqrt i5) \<and> (\<exists>j. invariants_j (i1, i2, i3, i4, i5) = Inr j)) \<and>
   (three_qubit_snapshot result [qA, qB, qC] \<and> qA \<noteq> qB \<longrightarrow>
      (\<exists>are kind what.
         detect_entanglement_tripartite result [qA, qB, qC] = Inr (are, kind, what) \<and>
         ((\<not> are \<and> kind = ''fully_separable'' \<and> what = None) \<or>
          (are \<and> kind = ''bipartite'' \<and> what \<in> {Some [qB, qC], Some [qA, qC], Some [qA, qB]}) \<or>
          (are \<and> kind = ''tripartite'' \<and> what = Some [qA, qB, qC])))) \<and>
   (three_qubit_snapshot result [qA, qA, qC] \<longrightarrow>
      detect_entanglement_tripartite result [qA, qA, qC] = Inl RepeatedQubitError) \<and>
   (three_qubit_snapshot result (qubit_names (QuantumTeleportation what_gate phase)) \<longrightarrow>
      (\<exists>v. detect_entanglement schmidt (QuantumTeleportation what_gate phase) result = Inr v)) \<and>
   (three_qubit_snapshot result (qubit_names (DeutschJozsa um)) \<longrightarrow>
      (\<exists>v. detect_entanglement schmidt (DeutschJozsa um) result = Inr v)) \<and>
   (\<exists>v. detect_entanglement schmidt SimpleEntanglement result = Inr v)"
proof (intro conjI allI impI)
  show "detect_entanglement_tripartite result qubits \<noteq> Inl MathDomainError"
    using tripartite_error[of result qubits MathDomainError] by auto
next
  fix i1 i2 i3 i4 i5
  assume i: "invariants_i result qA qB qC = Inr (i1, i2, i3, i4, i5)"
  from invariants_i_i5[OF i] show "0 \<le> i5" by auto
  then show "py_sqrt i5 = Inr (sqrt i5)" by (rule py_sqrt_nonneg)
  from invariants_j_total[OF i] show "\<exists>j. invariants_j (i1, i2, i3, i4, i5) = Inr j" .
next
  assume "three_qubit_snapshot result [qA, qB, qC] \<and> qA \<noteq> qB"
  then have "three_qubit_snapshot result [qA, qB, qC]" and "qA \<noteq> qB" by simp_all
  from tripartite_total[OF this]
  show "\<exists>are kind what.
         detect_entanglement_tripartite result [qA, qB, qC] = Inr (are, kind, what) \<and>
         ((\<not> are \<and> kind = ''fully_separable'' \<and> what = None) \<or>
          (are \<and> kind = ''bipartite'' \<and> what \<in> {Some [qB, qC], Some [qA, qC], Some [qA, qB]}) \<or>
          (are \<and> kind = ''tripartite'' \<and> what = Some [qA, qB, qC]))" .
next
  assume "three_qubit_snapshot result [qA, qA, qC]"
  then show "detect_entanglement_tripartite result [qA, qA, qC] = Inl RepeatedQubitError"
    by (rule tripartite_repeated)
next
  assume "three_qubit_snapshot result (qubit_names (QuantumTeleportation what_gate phase))"
  then have "three_qubit_snapshot result [''msg'', ''alice'', ''bob'']" by simp
  from tripartite_detector_total[OF this]
  show "\<exists>v. detect_entanglement schmidt (QuantumTeleportation what_gate phase) result = Inr v"
    by simp
next
  assume "three_qubit_snapshot result (qubit_names (DeutschJozsa um))"
  then have "three_qubit_snapshot result [''q1'', ''q2'', ''control'']" by simp
  from tripartite_detector_total[OF this]
  show "\<exists>v. detect_entanglement schmidt (DeutschJozsa um) result = Inr v"
    by simp
next
  show "\<exists>v. detect_entanglement schmidt SimpleEntanglement result = Inr v" by simp
qed

lemma ex_pair_ab_snapshot: "three_qubit_snapshot ex_pair_ab [''a'', ''b'', ''c'']"
  by (simp add: three_qubit_snapshot_def ex_pair_ab_def)

lemma ex_pair_ab_repeated: "three_qubit_snapshot ex_pair_ab [''a'', ''a'', ''c'']"
  by (simp add: three_qubit_snapshot_def ex_pair_ab_def)

lemma ex_product_snapshot:
  "three_qubit_snapshot ex_product (qubit_names (QuantumTeleportation ''X'' 0))"
  by (simp add: three_qubit_snapshot_def ex_product_def product_state_def)

theorem tripartite_never_raises_witness:
  "three_qubit_snapshot ex_pair_ab [''a'', ''b'', ''c''] \<and>
   invariants_i ex_pair_ab ''a'' ''b'' ''c'' = Inr (337/625, 337/625, 1, 193/625, 0) \<and>
   detect_entanglement_tripartite ex_pair_ab [''a'', ''b'', ''c''] \<noteq> Inl MathDomainError \<and>
   (0::real) \<le> 0 \<and> py_sqrt 0 = Inr (sqrt 0) \<and>
   (\<exists>j. invariants_j (337/625, 337/625, 1, 193/625, 0) = Inr j) \<and>
   (\<exists>are kind what.
      detect_entanglement_tripartite ex_pair_ab [''a'', ''b'', ''c''] = Inr (are, kind, what)) \<and>
   detect_entanglement_tripartite ex_pair_ab [''a'', ''a'', ''c''] = Inl RepeatedQubitError \<and>
   (\<exists>v. detect_entanglement ex_schmidt (QuantumTeleportation ''X'' 0) ex_product = Inr v)"
proof -
  have ne: "''a'' \<noteq> ''b''" by simp
  note t = tripartite_never_raises[of ex_pair_ab "[''a'', ''b'', ''c'']" "''a''" "''b''" "''c''"]
  note u = tripartite_never_raises[of ex_pair_ab "[''a'', ''a'', ''c'']" "''a''" "''a''" "''c''"]
  note w = tripartite_never_raises[of ex_product "[]" "''a''" "''b''" "''c''" "''X''" 0 ex_schmidt]
  from u ex_pair_ab_repeated have r:
    "detect_entanglement_tripartite ex_pair_ab [''a'', ''a'', ''c''] = Inl RepeatedQubitError"
    by blast
  from w ex_product_snapshot have d:
    "\<exists>v. detect_entanglement ex_schmidt (QuantumTeleportation ''X'' 0) ex_product = Inr v"
    by blast
  from t ex_pair_ab_snapshot ex_pair_ab_i ne r d show ?thesis by blast
qed

section \<open>The simple scenario's detector\<close>

text \<open>
  Claim C8. In the simple scenario \<open>detect_entanglement\<close> returns, for every snapshot, a
  pair whose first component is the qubit \<open>alice\<close> whether or not the bipartite witness
  reports entanglement; the second component is the qubit \<open>bob\<close> when the witness
  reports entanglement and the empty tuple otherwise.
\<close>

theorem simple_detector_pair:
  "\<exists>second.
     detect_entanglement schmidt SimpleEntanglement simulation_step =
       Inr (Some [Qid ''alice'', second]) \<and>
     (detect_entanglement_bipartite schmidt simulation_step \<longrightarrow> second = Qid ''bob'') \<and>
     (\<not> detect_entanglement_bipartite schmidt simulation_step \<longrightarrow> second = EmptyTuple)"
  by simp

lemma ex_ket00_not_entangled: "\<not> detect_entanglement_bipartite (\<lambda>sv shape. [1, 0]) ex_ket00"
  by (simp add: detect_entanglement_bipartite_def count_nonzero_def np_size_def
                around_def rint_def Let_def)

lemma ex_ket00_entangled: "detect_entanglement_bipartite (\<lambda>sv shape. [4/5, 3/5]) ex_ket00"
  by (simp add: detect_entanglement_bipartite_def count_nonzero_def np_size_def
                around_def rint_def Let_def)

theorem simple_detector_pair_witness:
  "\<not> detect_entanglement_bipartite (\<lambda>sv shape. [1, 0]) ex_ket00 \<and>
   detect_entanglement (\<lambda>sv shape. [1, 0]) SimpleEntanglement ex_ket00 =
     Inr (Some [Qid ''alice'', EmptyTuple]) \<and>
   detect_entanglement_bipartite (\<lambda>sv shape. [4/5, 3/5]) ex_ket00 \<and>
   detect_entanglement (\<lambda>sv shape. [4/5, 3/5]) SimpleEntanglement ex_ket00 =
     Inr (Some [Qid ''alice'', Qid ''bob''])"
proof -
  from simple_detector_pair[of "\<lambda>sv shape. [1, 0]" ex_ket00] ex_ket00_not_entangled
  have a: "detect_entanglement (\<lambda>sv shape. [1, 0]) SimpleEntanglement ex_ket00 =
     Inr (Some [Qid ''alice'', EmptyTuple])" by blast
  from simple_detector_pair[of "\<lambda>sv shape. [4/5, 3/5]" ex_ket00] ex_ket00_entangled
  have b: "detect_entanglement (\<lambda>sv shape. [4/5, 3/5]) SimpleEntanglement ex_ket00 =
     Inr (Some [Qid ''alice'', Qid ''bob''])" by blast
  from a b ex_ket00_not_entangled ex_ket00_entangled show ?thesis by blast
qed

section \<open>The size of the entangled set\<close>

lemma tripartite_detector_shape:
  assumes "tripartite_detector m [a, b, c] = Inr r" and "distinct [a, b, c]"
  shows "r = None \<or> (\<exists>t. r = Some t \<and> finite (set t) \<and> 2 \<le> card (set t))"
proof -
  from assms(1) obtain are kind what where
    d: "detect_entanglement_tripartite m [a, b, c] = Inr (are, kind, what)"
    and r: "r = (if are then map_option (map Qid) what else None)"
    unfolding tripartite_detector_def by (auto simp: bindE_eq_Inr)
  from d have "\<exists>rj. classify rj a b c = (are, kind, what)"
    by (auto simp: detect_tripartite_3 bindE_eq_Inr simp del: split_paired_Ex)
  then obtain rj where "classify rj a b c = (are, kind, what)" ..
  from classify_shape[OF this] assms(2) show ?thesis
    unfolding r by (auto simp: card_insert_if)
qed

lemma detect_entanglement_shape:
  assumes "detect_entanglement schmidt sc m = Inr r"
  shows "r = None \<or> (\<exists>t. r = Some t \<and> finite (set t) \<and> 2 \<le> card (set t))"
proof (cases sc)
  case SimpleEntanglement
  with assms show ?thesis by (auto simp: card_insert_if)
next
  case (QuantumTeleportation g p)
  with assms show ?thesis using tripartite_detector_shape[of m "''msg''" "''alice''" "''bob''" r]
    by simp
next
  case (DeutschJozsa um)
  with assms show ?thesis using tripartite_detector_shape[of m "''q1''" "''q2''" "''control''" r]
    by simp
qed

lemma update_entangled_ok:
  assumes "size_ok ce"
      and "entangled = None \<or> (\<exists>t. entangled = Some t \<and> finite (set t) \<and> 2 \<le> card (set t))"
  shows "size_ok (update_entangled ce entangled measured)"
proof -
  define ce1 where "ce1 = (case entangled of None \<Rightarrow> ce | Some qids \<Rightarrow> ce \<union> set qids)"
  have ce1: "size_ok ce1"
  proof (cases entangled)
    case None
    then show ?thesis using assms(1) by (simp add: ce1_def)
  next
    case (Some t)
    with assms(2) have t: "2 \<le> card (set t)" by auto
    have fin: "finite (ce \<union> set t)" using assms(1) by (simp add: size_ok_def)
    have "card (set t) \<le> card (ce \<union> set t)" by (rule card_mono[OF fin]) simp
    with t fin show ?thesis by (simp add: ce1_def Some size_ok_def)
  qed
  show ?thesis
    unfolding update_entangled_def ce1_def[symmetric] Let_def
    using ce1 by (auto simp: size_ok_def split: option.splits)
qed

lemma step_ok:
  assumes "size_ok (currently_entangled s)"
  shows "size_ok (currently_entangled (snd (step schmidt bloch around_single s)))"
  unfolding step_def
  using assms
  by (auto simp: Let_def split: list.splits sum.splits
           intro!: update_entangled_ok dest: detect_entanglement_shape)

lemma run_ok:
  "size_ok (currently_entangled s) \<Longrightarrow> size_ok (currently_entangled (run schmidt bloch around_single n s))"
  by (induction n arbitrary: s) (auto intro: step_ok)

text \<open>
  Claim C5. For every scenario, whatever snapshots the simulator produces and however
  many times the stepper is advanced, the set of currently entangled members is finite
  and has no member or at least two: the update (add the implicated members, remove the
  measured one if present, clear the set when at most one is left) never leaves exactly
  one member.
\<close>

theorem entangled_set_size:
  "finite (currently_entangled (run schmidt bloch around_single n (init_stepper sc moments))) \<and>
   (card (currently_entangled (run schmidt bloch around_single n (init_stepper sc moments))) = 0 \<or>
    2 \<le> card (currently_entangled (run schmidt bloch around_single n (init_stepper sc moments))))"
proof -
  have "size_ok (currently_entangled (init_stepper sc moments))"
    by (simp add: init_stepper_def size_ok_def)
  from run_ok[OF this, of schmidt bloch around_single n] show ?thesis unfolding size_ok_def .
qed

section \<open>The invariants of the tripartite witness\<close>

lemma sum_list_upt: "sum_list (map f [0..<n]) = (\<Sum>i<n. f i)"
  by (simp add: interv_sum_list_conv_sum_set_nat atLeast0LessThan)

lemma reduced_density_length: "length (reduced_density sv n keep) = 2 ^ length keep"
  by (simp add: reduced_density_def Let_def)

lemma reduced_density_row:
  "r < 2 ^ length keep \<Longrightarrow> length (reduced_density sv n keep ! r) = 2 ^ length keep"
  by (simp add: reduced_density_def Let_def)

lemma reduced_density_nth:
  assumes "r < 2 ^ length keep" "c < 2 ^ length keep"
  shows "reduced_density sv n keep ! r ! c =
     (\<Sum>e<2 ^ length (filter (\<lambda>k. k \<notin> set keep) [0..<n]).
        sv ! (spread n keep r + spread n (filter (\<lambda>k. k \<notin> set keep) [0..<n]) e) *
        cnj (sv ! (spread n keep c + spread n (filter (\<lambda>k. k \<notin> set keep) [0..<n]) e)))"
  using assms by (simp add: reduced_density_def Let_def sum_list_upt)

lemma reduced_density_hermitian: "hermitian (2 ^ length keep) (reduced_density sv n keep)"
  unfolding hermitian_def
  by (auto simp: reduced_density_length reduced_density_row reduced_density_nth mult.commute)

lemma matmul_nth:
  assumes "i < length A" "j < length (hd B)"
  shows "matmul A B ! i ! j = (\<Sum>k<length B. A ! i ! k * B ! k ! j)"
  using assms by (simp add: matmul_def sum_list_upt)

lemma trace_matmul:
  assumes "hermitian d A" "hermitian d B"
  shows "trace (matmul A B) = (\<Sum>i<d. \<Sum>k<d. A ! i ! k * B ! k ! i)"
proof (cases "d = 0")
  case True
  with assms show ?thesis by (simp add: hermitian_def trace_def matmul_def)
next
  case False
  from assms have lA: "length A = d" and lB: "length B = d"
    by (auto simp: hermitian_def)
  from lB False have "hd B = B ! 0" by (cases B) auto
  with assms(2) False have l0: "length (hd B) = d" by (simp add: hermitian_def)
  have "length (matmul A B) = d" by (simp add: matmul_def lA)
  then have "trace (matmul A B) = (\<Sum>i<d. matmul A B ! i ! i)"
    by (simp add: trace_def sum_list_upt)
  also have "\<dots> = (\<Sum>i<d. \<Sum>k<d. A ! i ! k * B ! k ! i)"
    by (rule sum.cong) (simp_all add: matmul_nth lA lB l0)
  finally show ?thesis .
qed

lemma hermitian_nth: "hermitian d A \<Longrightarrow> i < d \<Longrightarrow> j < d \<Longrightarrow> cnj (A ! i ! j) = A ! j ! i"
  unfolding hermitian_def by metis

lemma hermitian_trace_real:
  assumes "hermitian d A" "hermitian d B"
  shows "complex_of_real (Re (trace (matmul A B))) = trace (matmul A B)"
proof -
  have "cnj (trace (matmul A B)) = (\<Sum>i<d. \<Sum>k<d. cnj (A ! i ! k) * cnj (B ! k ! i))"
    by (simp add: trace_matmul[OF assms])
  also have "\<dots> = (\<Sum>i<d. \<Sum>k<d. A ! k ! i * B ! i ! k)"
    by (intro sum.cong refl) (simp add: hermitian_nth[OF assms(1)] hermitian_nth[OF assms(2)])
  also have "\<dots> = (\<Sum>k<d. \<Sum>i<d. A ! k ! i * B ! i ! k)"
    by (rule sum.swap)
  also have "\<dots> = trace (matmul A B)"
    by (simp add: trace_matmul[OF assms])
  finally show ?thesis
    by (metis complex_cnj_cancel_iff Reals_cnj_iff of_real_Re complex_cnj_cnj)
qed

lemma list2: "length xs = 2 \<Longrightarrow> xs = [xs ! 0, xs ! 1]"
  by (cases xs; cases "tl xs") auto

lemma hermitian2_explicit:
  assumes "hermitian 2 A"
  shows "A = [[A ! 0 ! 0, A ! 0 ! 1], [A ! 1 ! 0, A ! 1 ! 1]]"
proof -
  from assms have "length A = 2" "length (A ! 0) = 2" "length (A ! 1) = 2"
    by (auto simp: hermitian_def)
  then show ?thesis using list2[of A] list2[of "A ! 0"] list2[of "A ! 1"] by metis
qed

lemma kron_hermitian:
  assumes "hermitian 2 A" "hermitian 2 B"
  shows "hermitian 4 (kron A B)"
proof -
  obtain a b c d where A: "A = [[a, b], [c, d]]" using hermitian2_explicit[OF assms(1)] by blast
  obtain e f g h where B: "B = [[e, f], [g, h]]" using hermitian2_explicit[OF assms(2)] by blast
  from assms(1) have hA: "cnj a = a" "cnj b = c" "cnj c = b" "cnj d = d"
    unfolding A using hermitian_nth[of 2 "[[a, b], [c, d]]" 0 0]
      hermitian_nth[of 2 "[[a, b], [c, d]]" 0 1] hermitian_nth[of 2 "[[a, b], [c, d]]" 1 0]
      hermitian_nth[of 2 "[[a, b], [c, d]]" 1 1] by simp_all
  from assms(2) have hB: "cnj e = e" "cnj f = g" "cnj g = f" "cnj h = h"
    unfolding B using hermitian_nth[of 2 "[[e, f], [g, h]]" 0 0]
      hermitian_nth[of 2 "[[e, f], [g, h]]" 0 1] hermitian_nth[of 2 "[[e, f], [g, h]]" 1 0]
      hermitian_nth[of 2 "[[e, f], [g, h]]" 1 1] by simp_all
  have K: "kron A B = [[a*e, a*f, b*e, b*f], [a*g, a*h, b*g, b*h],
                       [c*e, c*f, d*e, d*f], [c*g, c*h, d*g, d*h]]"
    by (simp add: kron_def A B)
  show ?thesis
    unfolding K hermitian_def
    by (simp add: All_less_Suc2 numeral_eq_Suc hA hB)
qed


lemma axes_of_length: "axes_of order qs = Inr ks \<Longrightarrow> length ks = length qs"
  by (induction qs arbitrary: ks) (auto simp: bindE_eq_Inr split: option.splits)

lemma density_matrix_of_hermitian:
  assumes "density_matrix_of result qs = Inr rho"
  shows "hermitian (2 ^ length qs) rho"
proof -
  from assms obtain keep where k: "axes_of (qubit_order result) qs = Inr keep"
    and rho: "rho = reduced_density (state_vector result) (length (qubit_order result)) keep"
    unfolding density_matrix_of_def by (auto simp: bindE_eq_Inr split: if_splits)
  from axes_of_length[OF k] reduced_density_hermitian[of keep] show ?thesis
    unfolding rho by simp
qed

lemma hdet_spec_h: "hdet a = spec_h a"
  by (simp add: hdet_def spec_h_def algebra_simps)

text \<open>
  Claim C3. With \<open>rhoA\<close>, \<open>rhoB\<close>, \<open>rhoC\<close>, \<open>rhoAB\<close> the density matrices the snapshot
  reports and \<open>a\<close> the amplitude tensor, the witness computes \<open>i1\<close>, \<open>i2\<close>, \<open>i3\<close> as the
  purities \<open>Tr(rho^2)\<close> of A, B, C, \<open>i4\<close> as \<open>Tr((rhoA (x) rhoB) rhoAB)\<close> (the conversion to
  a float loses nothing: these traces are real), \<open>i5\<close> as the squared absolute value of
  the specification's polynomial \<open>h\<close>, derives \<open>j1 .. j5\<close> by the five stated formulas,
  and classifies the five values rounded to 6 decimals.
\<close>

theorem tripartite_quantities:
  assumes "density_matrix_of result [qA] = Inr rhoA"
      and "density_matrix_of result [qB] = Inr rhoB"
      and "density_matrix_of result [qC] = Inr rhoC"
      and "density_matrix_of result [qA, qB] = Inr rhoAB"
      and "reshape222 (state_vector result) = Inr a"
  shows "\<exists>i1 i2 i3 i4 i5 j1 j2 j3 j4 j5.
      invariants_i result qA qB qC = Inr (i1, i2, i3, i4, i5) \<and>
      complex_of_real i1 = trace (matmul rhoA rhoA) \<and>
      complex_of_real i2 = trace (matmul rhoB rhoB) \<and>
      complex_of_real i3 = trace (matmul rhoC rhoC) \<and>
      complex_of_real i4 = trace (matmul (kron rhoA rhoB) rhoAB) \<and>
      i5 = (cmod (spec_h a))\<^sup>2 \<and>
      invariants_j (i1, i2, i3, i4, i5) = Inr (j1, j2, j3, j4, j5) \<and>
      j1 = (1 + i1 - i2 - i3 - 2 * sqrt i5) / 4 \<and>
      j2 = (1 - i1 + i2 - i3 - 2 * sqrt i5) / 4 \<and>
      j3 = (1 - i1 - i2 + i3 - 2 * sqrt i5) / 4 \<and>
      j4 = sqrt i5 \<and>
      j5 = (3 - 3 * i1 - 3 * i2 - i3 + 4 * i4 - 2 * sqrt i5) / 4 \<and>
      detect_entanglement_tripartite result [qA, qB, qC] =
        Inr (classify (py_round j1 6, py_round j2 6, py_round j3 6, py_round j4 6, py_round j5 6)
               qA qB qC)"
proof -
  define i1 where "i1 = Re (trace (matmul rhoA rhoA))"
  define i2 where "i2 = Re (trace (matmul rhoB rhoB))"
  define i3 where "i3 = Re (trace (matmul rhoC rhoC))"
  define i4 where "i4 = Re (trace (matmul (kron rhoA rhoB) rhoAB))"
  define i5 where "i5 = (cmod (spec_h a))\<^sup>2"
  have hA: "hermitian 2 rhoA" and hB: "hermitian 2 rhoB" and hC: "hermitian 2 rhoC"
    and hAB: "hermitian 4 rhoAB"
    using density_matrix_of_hermitian[OF assms(1)] density_matrix_of_hermitian[OF assms(2)]
      density_matrix_of_hermitian[OF assms(3)] density_matrix_of_hermitian[OF assms(4)]
    by simp_all
  have i: "invariants_i result qA qB qC = Inr (i1, i2, i3, i4, i5)"
    by (simp add: invariants_i_def assms Let_def py_float_def hdet_spec_h
                  i1_def i2_def i3_def i4_def i5_def)
  have r1: "complex_of_real i1 = trace (matmul rhoA rhoA)"
    unfolding i1_def by (rule hermitian_trace_real[OF hA hA])
  have r2: "complex_of_real i2 = trace (matmul rhoB rhoB)"
    unfolding i2_def by (rule hermitian_trace_real[OF hB hB])
  have r3: "complex_of_real i3 = trace (matmul rhoC rhoC)"
    unfolding i3_def by (rule hermitian_trace_real[OF hC hC])
  have r4: "complex_of_real i4 = trace (matmul (kron rhoA rhoB) rhoAB)"
    unfolding i4_def by (rule hermitian_trace_real[OF kron_hermitian[OF hA hB] hAB])
  have nn: "0 \<le> i5" by (simp add: i5_def)
  note j = invariants_j_nonneg[OF nn, of i1 i2 i3 i4]
  have d: "detect_entanglement_tripartite result [qA, qB, qC] =
        Inr (classify (py_round ((1 + i1 - i2 - i3 - 2 * sqrt i5) / 4) 6,
                       py_round ((1 - i1 + i2 - i3 - 2 * sqrt i5) / 4) 6,
                       py_round ((1 - i1 - i2 + i3 - 2 * sqrt i5) / 4) 6,
                       py_round (sqrt i5) 6,
                       py_round ((3 - 3 * i1 - 3 * i2 - i3 + 4 * i4 - 2 * sqrt i5) / 4) 6)
               qA qB qC)"
    by (simp add: detect_tripartite_3 i j rounded_j_def)
  from i r1 r2 r3 r4 j d show ?thesis
    unfolding i5_def[symmetric] by (intro exI conjI) (assumption | simp | rule refl)+
qed

lemma ex_pair_ab_rhoA:
  "density_matrix_of ex_pair_ab [''a''] = Inr [[9/25, 0], [0, 16/25]]"
  by (simp add: ex_pair_ab_def eval_defs)

lemma ex_pair_ab_rhoB:
  "density_matrix_of ex_pair_ab [''b''] = Inr [[9/25, 0], [0, 16/25]]"
  by (simp add: ex_pair_ab_def eval_defs)

lemma ex_pair_ab_rhoC:
  "density_matrix_of ex_pair_ab [''c''] = Inr [[1, 0], [0, 0]]"
  by (simp add: ex_pair_ab_def eval_defs)

lemma ex_pair_ab_rhoAB:
  "density_matrix_of ex_pair_ab [''a'', ''b''] =
     Inr [[9/25, 0, 0, 12/25], [0, 0, 0, 0], [0, 0, 0, 0], [12/25, 0, 0, 16/25]]"
  by (simp add: ex_pair_ab_def eval_defs)

lemma ex_pair_ab_reshape:
  "reshape222 (state_vector ex_pair_ab) =
     Inr (\<lambda>a b c. [3/5, 0, 0, 0, 0, 0, 4/5, 0] ! (4 * a + 2 * b + c))"
  by (simp add: ex_pair_ab_def reshape222_def)

theorem tripartite_quantities_witness:
  "density_matrix_of ex_pair_ab [''a''] = Inr [[9/25, 0], [0, 16/25]] \<and>
   density_matrix_of ex_pair_ab [''b''] = Inr [[9/25, 0], [0, 16/25]] \<and>
   density_matrix_of ex_pair_ab [''c''] = Inr [[1, 0], [0, 0]] \<and>
   density_matrix_of ex_pair_ab [''a'', ''b''] =
     Inr [[9/25, 0, 0, 12/25], [0, 0, 0, 0], [0, 0, 0, 0], [12/25, 0, 0, 16/25]] \<and>
   reshape222 (state_vector ex_pair_ab) =
     Inr (\<lambda>a b c. [3/5, 0, 0, 0, 0, 0, 4/5, 0] ! (4 * a + 2 * b + c)) \<and>
   (\<exists>i1 i2 i3 i4 i5 j1 j2 j3 j4 j5.
      invariants_i ex_pair_ab ''a'' ''b'' ''c'' = Inr (i1, i2, i3, i4, i5) \<and>
      complex_of_real i1 = trace (matmul [[9/25, 0], [0, 16/25]] [[9/25, 0], [0, 16/25]]) \<and>
      complex_of_real i4 =
        trace (matmul (kron [[9/25, 0], [0, 16/25]] [[9/25, 0], [0, 16/25]])
                 [[9/25, 0, 0, 12/25], [0, 0, 0, 0], [0, 0, 0, 0], [12/25, 0, 0, 16/25]]) \<and>
      invariants_j (i1, i2, i3, i4, i5) = Inr (j1, j2, j3, j4, j5) \<and>
      j3 = (1 - i1 - i2 + i3 - 2 * sqrt i5) / 4 \<and>
      detect_entanglement_tripartite ex_pair_ab [''a'', ''b'', ''c''] =
        Inr (classify (py_round j1 6, py_round j2 6, py_round j3 6, py_round j4 6, py_round j5 6)
               ''a'' ''b'' ''c''))"
  using tripartite_quantities[OF ex_pair_ab_rhoA ex_pair_ab_rhoB ex_pair_ab_rhoC
          ex_pair_ab_rhoAB ex_pair_ab_reshape]
        ex_pair_ab_rhoA ex_pair_ab_rhoB ex_pair_ab_rhoC ex_pair_ab_rhoAB ex_pair_ab_reshape
  by blast

section \<open>The empty tuple in the simple scenario\<close>

lemma mapE_total: "(\<And>x. x \<in> set xs \<Longrightarrow> \<exists>y. f x = Inr y) \<Longrightarrow> \<exists>ys. mapE f xs = Inr ys"
proof (induction xs)
  case Nil
  then show ?case by simp
next
  case (Cons x xs)
  then obtain y ys where "f x = Inr y" "mapE f xs = Inr ys" by (metis list.set_intros)
  then show ?case by simp
qed

lemma bloch_total:
  "q \<in> set (qubit_order m) \<Longrightarrow> \<exists>v. bloch_vector_of bloch m q = Inr v"
  unfolding bloch_vector_of_def using index_of_mem[of q "qubit_order m"] by auto

lemma step_simple:
  assumes "scenario_of s = SimpleEntanglement" "sim_iter s = m # rest"
    and "set [''alice'', ''bob''] \<subseteq> set (qubit_order m)"
    and "measurements_iter s = me # ms" "desc_iter s = d # ds"
    and ce_def: "ce = update_entangled (currently_entangled s)
                  (Some [Qid ''alice'', simple_member schmidt m]) me"
  shows "fst (step schmidt bloch around_single s) = Yielded m d ce"
    and "scenario_of (snd (step schmidt bloch around_single s)) = SimpleEntanglement"
    and "sim_iter (snd (step schmidt bloch around_single s)) = rest"
    and "measurements_iter (snd (step schmidt bloch around_single s)) = ms"
    and "desc_iter (snd (step schmidt bloch around_single s)) = ds"
    and "currently_entangled (snd (step schmidt bloch around_single s)) = ce"
proof -
  have "\<exists>bv. bloch_row bloch around_single m (qubit_names SimpleEntanglement) = Inr bv"
    unfolding bloch_row_def
  proof (rule mapE_total)
    fix q assume "q \<in> set (qubit_names SimpleEntanglement)"
    with assms(3) have "q \<in> set (qubit_order m)" by auto
    from bloch_total[OF this, of bloch]
    show "\<exists>y. bindE (bloch_vector_of bloch m q) (\<lambda>v. Inr (map (\<lambda>x. around_single x 6) v)) = Inr y"
      by auto
  qed
  then obtain bv where bv: "bloch_row bloch around_single m (qubit_names SimpleEntanglement) = Inr bv" ..
  show "fst (step schmidt bloch around_single s) = Yielded m d ce"
    and "scenario_of (snd (step schmidt bloch around_single s)) = SimpleEntanglement"
    and "sim_iter (snd (step schmidt bloch around_single s)) = rest"
    and "measurements_iter (snd (step schmidt bloch around_single s)) = ms"
    and "desc_iter (snd (step schmidt bloch around_single s)) = ds"
    and "currently_entangled (snd (step schmidt bloch around_single s)) = ce"
    using assms(1,2,4,5) bv
    by (simp_all add: step_def Let_def ce_def simple_member_def)
qed


lemma update_none:
  "update_entangled ce (Some [Qid ''alice'', x]) None = insert (Qid ''alice'') (insert x ce)"
  by (auto simp: update_entangled_def)

lemma update_alice:
  "update_entangled ce (Some [Qid ''alice'', x]) (Some (Qid ''alice'')) =
     (let r = insert x ce - {Qid ''alice''} in if card r \<le> 1 then {} else r)"
  by (auto simp: update_entangled_def Let_def)

lemma list5: "5 \<le> length xs \<Longrightarrow> \<exists>a b c d e r. xs = a # b # c # d # e # r"
  by (auto simp: numeral_eq_Suc Suc_le_length_iff)

lemma simple_member_cases: "simple_member schmidt m = Qid ''bob'' \<or> simple_member schmidt m = EmptyTuple"
  by (simp add: simple_member_def)

text \<open>
  Claim C10. In the simple scenario the detector's second component is the empty tuple
  whenever the bipartite witness reports no entanglement, and the stepper adds it to the
  set as a member. For a run whose first five snapshots know both qubits and among which
  the witness reports entanglement at least once and no entanglement at least once (as
  it does on the circuit's own states), the fifth step, which measures \<open>alice\<close>, leaves
  and emits the set \<open>{(), bob}\<close>: two members, not cleared, only one of them a qubit.
\<close>

theorem simple_run_keeps_empty_tuple:
  assumes "\<forall>k<5. set [''alice'', ''bob''] \<subseteq> set (qubit_order (moments ! k))"
      and "5 \<le> length moments"
      and "\<exists>k<5. detect_entanglement_bipartite schmidt (moments ! k)"
      and "\<exists>k<5. \<not> detect_entanglement_bipartite schmidt (moments ! k)"
  shows "currently_entangled (run schmidt bloch around_single 5 (init_stepper SimpleEntanglement moments)) =
           {EmptyTuple, Qid ''bob''} \<and>
         card (currently_entangled (run schmidt bloch around_single 5 (init_stepper SimpleEntanglement moments))) = 2 \<and>
         fst (step schmidt bloch around_single (run schmidt bloch around_single 4 (init_stepper SimpleEntanglement moments))) =
           Yielded (moments ! 4) ''Pomiar kubitu Alicji'' {EmptyTuple, Qid ''bob''}"
proof -
  from list5[OF assms(2)] obtain m0 m1 m2 m3 m4 rest
    where ms: "moments = m0 # m1 # m2 # m3 # m4 # rest" by blast
  from assms(1) have wf: "set [''alice'', ''bob''] \<subseteq> set (qubit_order m0)"
      "set [''alice'', ''bob''] \<subseteq> set (qubit_order m1)"
      "set [''alice'', ''bob''] \<subseteq> set (qubit_order m2)"
      "set [''alice'', ''bob''] \<subseteq> set (qubit_order m3)"
      "set [''alice'', ''bob''] \<subseteq> set (qubit_order m4)"
    unfolding ms by (simp_all add: All_less_Suc2 numeral_eq_Suc)
  define x where "x = simple_member schmidt"
  from assms(3) have some_bob: "x m0 = Qid ''bob'' \<or> x m1 = Qid ''bob'' \<or> x m2 = Qid ''bob'' \<or>
      x m3 = Qid ''bob'' \<or> x m4 = Qid ''bob''"
    unfolding ms x_def by (auto simp: Ex_less_Suc2 numeral_eq_Suc simple_member_def)
  from assms(4) have some_empty: "x m0 = EmptyTuple \<or> x m1 = EmptyTuple \<or> x m2 = EmptyTuple \<or>
      x m3 = EmptyTuple \<or> x m4 = EmptyTuple"
    unfolding ms x_def by (auto simp: Ex_less_Suc2 numeral_eq_Suc simple_member_def)
  have xc: "\<And>m. x m = Qid ''bob'' \<or> x m = EmptyTuple"
    unfolding x_def by (rule simple_member_cases)
  define s0 where "s0 = init_stepper SimpleEntanglement moments"
  define s1 where "s1 = snd (step schmidt bloch around_single s0)"
  define s2 where "s2 = snd (step schmidt bloch around_single s1)"
  define s3 where "s3 = snd (step schmidt bloch around_single s2)"
  define s4 where "s4 = snd (step schmidt bloch around_single s3)"
  define s5 where "s5 = snd (step schmidt bloch around_single s4)"
  have r4: "run schmidt bloch around_single 4 (init_stepper SimpleEntanglement moments) = s4"
    by (simp add: numeral_eq_Suc s0_def s1_def s2_def s3_def s4_def)
  have r5: "run schmidt bloch around_single 5 (init_stepper SimpleEntanglement moments) = s5"
    by (simp add: numeral_eq_Suc s0_def s1_def s2_def s3_def s4_def s5_def)
  have i0: "scenario_of s0 = SimpleEntanglement" "sim_iter s0 = m0 # m1 # m2 # m3 # m4 # rest"
    "measurements_iter s0 = [None, None, None, None, Some (Qid ''alice''), Some (Qid ''bob'')]"
    "desc_iter s0 = description_sequence SimpleEntanglement" "currently_entangled s0 = {}"
    by (simp_all add: s0_def init_stepper_def ms)
  note st0 = step_simple[OF i0(1) i0(2) wf(1) i0(3) i0(4)[simplified] refl, where schmidt = schmidt and bloch = bloch and around_single = around_single,
      folded s1_def x_def]
  note st1 = step_simple[OF st0(2) st0(3) wf(2) st0(4) st0(5) refl, where schmidt = schmidt and bloch = bloch and around_single = around_single,
      folded s2_def x_def]
  note st2 = step_simple[OF st1(2) st1(3) wf(3) st1(4) st1(5) refl, where schmidt = schmidt and bloch = bloch and around_single = around_single,
      folded s3_def x_def]
  note st3 = step_simple[OF st2(2) st2(3) wf(4) st2(4) st2(5) refl, where schmidt = schmidt and bloch = bloch and around_single = around_single,
      folded s4_def x_def]
  note st4 = step_simple[OF st3(2) st3(3) wf(5) st3(4) st3(5) refl, where schmidt = schmidt and bloch = bloch and around_single = around_single,
      folded s5_def x_def]
  have c4: "currently_entangled s4 = {Qid ''alice'', x m0, x m1, x m2, x m3}"
    unfolding st3(6) st2(6) st1(6) st0(6) i0(5) update_none by auto
  define members where "members = {x m0, x m1, x m2, x m3, x m4}"
  have members_sub: "members \<subseteq> {EmptyTuple, Qid ''bob''}"
    unfolding members_def using xc[of m0] xc[of m1] xc[of m2] xc[of m3] xc[of m4] by blast
  have "Qid ''bob'' \<in> members"
    unfolding members_def using some_bob by auto
  moreover have "EmptyTuple \<in> members"
    unfolding members_def using some_empty by auto
  ultimately have "Qid ''bob'' \<in> members" "EmptyTuple \<in> members" by blast+
  with members_sub have members_eq: "members = {EmptyTuple, Qid ''bob''}" by blast
  have "Qid ''alice'' \<notin> members" unfolding members_eq by simp
  then have rem: "insert (x m4) {Qid ''alice'', x m0, x m1, x m2, x m3} - {Qid ''alice''} = members"
    unfolding members_def by blast
  have c5: "currently_entangled s5 = {EmptyTuple, Qid ''bob''}"
    unfolding st4(6) c4 update_alice Let_def rem members_eq by simp
  have m4: "moments ! 4 = m4" by (simp add: ms)
  show ?thesis
    unfolding r4 r5 m4 using st4(1) c5 st4(6) by simp
qed

lemma ex_schmidt_product: "\<not> detect_entanglement_bipartite ex_schmidt ex_ket00"
  by (simp add: detect_entanglement_bipartite_def ex_schmidt_def ex_ket00_def count_nonzero_def
                np_size_def around_def rint_def Let_def)

lemma ex_schmidt_pair: "detect_entanglement_bipartite ex_schmidt ex_pair"
  by (simp add: detect_entanglement_bipartite_def ex_schmidt_def ex_pair_def count_nonzero_def
                np_size_def around_def rint_def Let_def)

theorem simple_run_keeps_empty_tuple_witness:
  "currently_entangled (run ex_schmidt exact_bloch around 5 (init_stepper SimpleEntanglement ex_simple_run)) =
     {EmptyTuple, Qid ''bob''} \<and>
   card (currently_entangled (run ex_schmidt exact_bloch around 5 (init_stepper SimpleEntanglement ex_simple_run))) = 2 \<and>
   fst (step ex_schmidt exact_bloch around (run ex_schmidt exact_bloch around 4 (init_stepper SimpleEntanglement ex_simple_run))) =
     Yielded (ex_simple_run ! 4) ''Pomiar kubitu Alicji'' {EmptyTuple, Qid ''bob''}"
proof -
  have a: "\<forall>k<5. set [''alice'', ''bob''] \<subseteq> set (qubit_order (ex_simple_run ! k))"
    by (simp add: All_less_Suc2 numeral_eq_Suc ex_simple_run_def ex_ket00_def ex_pair_def)
  have b: "5 \<le> length ex_simple_run"
    by (simp add: ex_simple_run_def)
  have c: "\<exists>k<5. detect_entanglement_bipartite ex_schmidt (ex_simple_run ! k)"
    using ex_schmidt_pair by (intro exI[of _ 1]) (simp add: ex_simple_run_def)
  have d: "\<exists>k<5. \<not> detect_entanglement_bipartite ex_schmidt (ex_simple_run ! k)"
    using ex_schmidt_product by (intro exI[of _ 0]) (simp add: ex_simple_run_def)
  from simple_run_keeps_empty_tuple[OF a b c d] show ?thesis .
qed

theorem entangled_set_size_witness:
  "finite (currently_entangled (run ex_schmidt exact_bloch around 6 (init_stepper SimpleEntanglement ex_simple_run))) \<and>
   (card (currently_entangled (run ex_schmidt exact_bloch around 6 (init_stepper SimpleEntanglement ex_simple_run))) = 0 \<or>
    2 \<le> card (currently_entangled (run ex_schmidt exact_bloch around 6 (init_stepper SimpleEntanglement ex_simple_run))))"
  by (rule entangled_set_size)

section \<open>Product states\<close>

lemma unit_complex:
  "unit_state x \<Longrightarrow> fst x * cnj (fst x) + snd x * cnj (snd x) = 1"
  unfolding complex_norm_square[symmetric] of_real_add[symmetric] unit_state_def
  by simp

lemmas rd_defs = reduced_density_def spread_def bit_at_def Let_def upts product_state_def projector_def

lemma rd_prod_0:
  assumes "unit_state v" "unit_state w"
  shows "reduced_density (product_state u v w) 3 [0] = projector u"
  using unit_complex[OF assms(1)] unit_complex[OF assms(2)]
  apply (simp add: rd_defs)
  apply (intro conjI)
  apply algebra+
  done


lemma rd_prod_1:
  assumes "unit_state u" "unit_state w"
  shows "reduced_density (product_state u v w) 3 [1] = projector v"
  using unit_complex[OF assms(1)] unit_complex[OF assms(2)]
  apply (simp add: rd_defs)
  apply (intro conjI)
  apply algebra+
  done

lemma rd_prod_2:
  assumes "unit_state u" "unit_state v"
  shows "reduced_density (product_state u v w) 3 [2] = projector w"
  using unit_complex[OF assms(1)] unit_complex[OF assms(2)]
  apply (simp add: rd_defs)
  apply (intro conjI)
  apply algebra+
  done

lemma rd_prod_01:
  assumes "unit_state w"
  shows "reduced_density (product_state u v w) 3 [0, 1] = kron (projector u) (projector v)"
  using unit_complex[OF assms]
  apply (simp add: rd_defs kron_def)
  apply (intro conjI)
  apply algebra+
  done

lemma rd_prod_02:
  assumes "unit_state v"
  shows "reduced_density (product_state u v w) 3 [0, 2] = kron (projector u) (projector w)"
  using unit_complex[OF assms]
  apply (simp add: rd_defs kron_def)
  apply (intro conjI)
  apply algebra+
  done

lemma rd_prod_10:
  assumes "unit_state w"
  shows "reduced_density (product_state u v w) 3 [1, 0] = kron (projector v) (projector u)"
  using unit_complex[OF assms]
  apply (simp add: rd_defs kron_def)
  apply (intro conjI)
  apply algebra+
  done

lemma rd_prod_12:
  assumes "unit_state u"
  shows "reduced_density (product_state u v w) 3 [1, 2] = kron (projector v) (projector w)"
  using unit_complex[OF assms]
  apply (simp add: rd_defs kron_def)
  apply (intro conjI)
  apply algebra+
  done

lemma rd_prod_20:
  assumes "unit_state v"
  shows "reduced_density (product_state u v w) 3 [2, 0] = kron (projector w) (projector u)"
  using unit_complex[OF assms]
  apply (simp add: rd_defs kron_def)
  apply (intro conjI)
  apply algebra+
  done

lemma rd_prod_21:
  assumes "unit_state u"
  shows "reduced_density (product_state u v w) 3 [2, 1] = kron (projector w) (projector v)"
  using unit_complex[OF assms]
  apply (simp add: rd_defs kron_def)
  apply (intro conjI)
  apply algebra+
  done

lemma rd_prod_single:
  assumes "unit_state u" "unit_state v" "unit_state w" "p < 3"
  shows "reduced_density (product_state u v w) 3 [p] = projector ([u, v, w] ! p)"
proof -
  from assms(4) consider "p = 0" | "p = 1" | "p = 2" by linarith
  then show ?thesis
  proof cases
    case 1
    then show ?thesis using rd_prod_0[OF assms(2,3), of u] by simp
  next
    case 2
    then show ?thesis using rd_prod_1[OF assms(1,3), of v] by simp
  next
    case 3
    then show ?thesis using rd_prod_2[OF assms(1,2), of w] by simp
  qed
qed

lemma rd_prod_pair:
  assumes "unit_state u" "unit_state v" "unit_state w" "p < 3" "q < 3" "p \<noteq> q"
  shows "reduced_density (product_state u v w) 3 [p, q] =
           kron (projector ([u, v, w] ! p)) (projector ([u, v, w] ! q))"
proof -
  from assms(4,5,6) consider "p = 0 \<and> q = 1" | "p = 0 \<and> q = 2" | "p = 1 \<and> q = 0"
    | "p = 1 \<and> q = 2" | "p = 2 \<and> q = 0" | "p = 2 \<and> q = 1" by linarith
  then show ?thesis
  proof cases
    case 1
    then show ?thesis using rd_prod_01[OF assms(3), of u v] by simp
  next
    case 2
    then show ?thesis using rd_prod_02[OF assms(2), of u w] by simp
  next
    case 3
    then show ?thesis using rd_prod_10[OF assms(3), of u v] by simp
  next
    case 4
    then show ?thesis using rd_prod_12[OF assms(1), of v w] by simp
  next
    case 5
    then show ?thesis using rd_prod_20[OF assms(2), of u w] by simp
  next
    case 6
    then show ?thesis using rd_prod_21[OF assms(1), of v w] by simp
  qed
qed

lemma projector_purity:
  assumes "unit_state x"
  shows "trace (matmul (projector x) (projector x)) = 1"
  using unit_complex[OF assms]
  apply (simp add: projector_def trace_def matmul_def upts)
  apply algebra
  done

lemma projector_pair_purity:
  assumes "unit_state x" "unit_state y"
  shows "trace (matmul (kron (projector x) (projector y)) (kron (projector x) (projector y))) = 1"
  using unit_complex[OF assms(1)] unit_complex[OF assms(2)]
  apply (simp add: projector_def kron_def trace_def matmul_def upts)
  apply algebra
  done

lemma hdet_product:
  "reshape222 (product_state u v w) = Inr a \<Longrightarrow> hdet a = 0"
  by (auto simp: reshape222_def product_state_def hdet_def power2_eq_square algebra_simps)


lemma index_of_Some: "index_of q order = Some k \<Longrightarrow> k < length order \<and> order ! k = q"
  by (induction order arbitrary: k) (auto split: if_splits)

lemma py_round_zero: "py_round 0 6 = 0"
  by (simp add: py_round_def rint_def)

text \<open>
  Claim C7. For every three-qubit pure product state, the product of three one-qubit
  states of norm one placed on the simulator's three axes, and for every assignment of
  the three qubits to A, B, C, the tripartite witness returns the verdict
  \<open>fully_separable\<close>: all five rounded quantities are zero.
\<close>

theorem product_state_fully_separable:
  assumes "length (qubit_order result) = 3"
      and "state_vector result = product_state u v w"
      and "unit_state u" "unit_state v" "unit_state w"
      and "distinct [qA, qB, qC]"
      and "set [qA, qB, qC] \<subseteq> set (qubit_order result)"
  shows "detect_entanglement_tripartite result [qA, qB, qC] =
           Inr (False, ''fully_separable'', None) \<and>
         (\<exists>i j. invariants_i result qA qB qC = Inr i \<and> invariants_j i = Inr j \<and>
                rounded_j j = (0, 0, 0, 0, 0))"
proof -
  let ?F = "[u, v, w]"
  from assms(7) obtain pA pB pC where
    ix: "index_of qA (qubit_order result) = Some pA" "index_of qB (qubit_order result) = Some pB"
        "index_of qC (qubit_order result) = Some pC"
    using index_of_mem[of qA "qubit_order result"] index_of_mem[of qB "qubit_order result"]
      index_of_mem[of qC "qubit_order result"] by auto
  from index_of_Some[OF ix(1)] index_of_Some[OF ix(2)] index_of_Some[OF ix(3)] assms(1,6)
  have lt: "pA < 3" "pB < 3" "pC < 3" and ne: "pA \<noteq> pB" by auto
  have un: "unit_state (?F ! pA)" "unit_state (?F ! pB)" "unit_state (?F ! pC)"
    using lt assms(3,4,5) by (auto simp: nth_Cons' )
  have rA: "density_matrix_of result [qA] = Inr (projector (?F ! pA))"
    by (simp add: density_matrix_of_def ix assms(1,2) rd_prod_single[OF assms(3,4,5) lt(1)])
  have rB: "density_matrix_of result [qB] = Inr (projector (?F ! pB))"
    by (simp add: density_matrix_of_def ix assms(1,2) rd_prod_single[OF assms(3,4,5) lt(2)])
  have rC: "density_matrix_of result [qC] = Inr (projector (?F ! pC))"
    by (simp add: density_matrix_of_def ix assms(1,2) rd_prod_single[OF assms(3,4,5) lt(3)])
  have rAB: "density_matrix_of result [qA, qB] =
      Inr (kron (projector (?F ! pA)) (projector (?F ! pB)))"
    by (simp add: density_matrix_of_def ix assms(1,2) ne rd_prod_pair[OF assms(3,4,5) lt(1,2) ne])
  obtain a where a: "reshape222 (product_state u v w) = Inr a"
    by (simp add: reshape222_def product_state_def)
  have i: "invariants_i result qA qB qC = Inr (1, 1, 1, 1, 0)"
    by (simp add: invariants_i_def rA rB rC rAB Let_def py_float_def assms(2) a
          projector_purity[OF un(1)] projector_purity[OF un(2)] projector_purity[OF un(3)]
          projector_pair_purity[OF un(1) un(2)] hdet_product[OF a])
  have j: "invariants_j (1, 1, 1, 1, 0) = Inr (0, 0, 0, 0, 0)"
    by (simp add: invariants_j_def py_sqrt_def)
  have r: "rounded_j (0, 0, 0, 0, 0) = (0, 0, 0, 0, 0)"
    by (simp add: rounded_j_def py_round_zero)
  have "detect_entanglement_tripartite result [qA, qB, qC] =
           Inr (False, ''fully_separable'', None)"
    by (simp add: detect_tripartite_3 i j r classify_zero)
  with i j r show ?thesis by blast
qed

lemma ex_product_units:
  "unit_state (3/5, 4/5)" "unit_state (1, 0)" "unit_state (0, \<i>)"
  by (simp_all add: unit_state_def power2_eq_square norm_divide)

theorem product_state_fully_separable_witness:
  "unit_state (3/5, 4/5) \<and> unit_state (1, 0) \<and> unit_state (0, \<i>) \<and>
   state_vector ex_product = product_state (3/5, 4/5) (1, 0) (0, \<i>) \<and>
   detect_entanglement_tripartite ex_product [''msg'', ''alice'', ''bob''] =
     Inr (False, ''fully_separable'', None)"
proof -
  have a: "length (qubit_order ex_product) = 3"
    and b: "state_vector ex_product = product_state (3/5, 4/5) (1, 0) (0, \<i>)"
    and c: "distinct [''msg'', ''alice'', ''bob'']"
    and d: "set [''msg'', ''alice'', ''bob''] \<subseteq> set (qubit_order ex_product)"
    by (simp_all add: ex_product_def)
  from product_state_fully_separable[OF a b ex_product_units c d] b ex_product_units
  show ?thesis by blast
qed

section \<open>Gates, measurements and the Deutsch-Jozsa scenario\<close>

lemmas sim_defs = apply_matrix_def sub_index_def spread_def bit_at_def Let_def upts numeral_2_eq_2[symmetric]

lemma H0: "apply_matrix (unitary H) 3 [0] [x0,x1,x2,x3,x4,x5,x6,x7] =
  [(x0 + x4) / sqrt 2, (x1 + x5) / sqrt 2, (x2 + x6) / sqrt 2, (x3 + x7) / sqrt 2,
   (x0 - x4) / sqrt 2, (x1 - x5) / sqrt 2, (x2 - x6) / sqrt 2, (x3 - x7) / sqrt 2]"
  by (simp add: sim_defs add_divide_distrib diff_divide_distrib)

lemma H1: "apply_matrix (unitary H) 3 [1] [x0,x1,x2,x3,x4,x5,x6,x7] =
  [(x0 + x2) / sqrt 2, (x1 + x3) / sqrt 2, (x0 - x2) / sqrt 2, (x1 - x3) / sqrt 2,
   (x4 + x6) / sqrt 2, (x5 + x7) / sqrt 2, (x4 - x6) / sqrt 2, (x5 - x7) / sqrt 2]"
  by (simp add: sim_defs add_divide_distrib diff_divide_distrib)

lemma H2: "apply_matrix (unitary H) 3 [2] [x0,x1,x2,x3,x4,x5,x6,x7] =
  [(x0 + x1) / sqrt 2, (x0 - x1) / sqrt 2, (x2 + x3) / sqrt 2, (x2 - x3) / sqrt 2,
   (x4 + x5) / sqrt 2, (x4 - x5) / sqrt 2, (x6 + x7) / sqrt 2, (x6 - x7) / sqrt 2]"
  by (simp add: sim_defs add_divide_distrib diff_divide_distrib)

lemma X0: "apply_matrix (unitary X) 3 [0] [x0,x1,x2,x3,x4,x5,x6,x7] = [x4,x5,x6,x7,x0,x1,x2,x3]"
  by (simp add: sim_defs X_def)


lemma sqrt2_sq: "complex_of_real (sqrt 2) * complex_of_real (sqrt 2) = 2"
  by (metis of_real_mult of_real_numeral real_sqrt_mult_self abs_numeral)

lemma dj_string_cases:
  "dj_string f =
     (if f 0 then ''21'' else ''12'') @ (if f 1 then ''43'' else ''34'') @
     (if f 2 then ''65'' else ''56'') @ (if f 3 then ''87'' else ''78'')"
  by (simp add: dj_string_def digit_char_def upts)

lemma dj_string_const: "dj_string (\<lambda>x. False) = ''12345678''"
  by (simp add: dj_string_cases)

lemma oracle_apply:
  "apply_matrix (unitary (MatrixGate (oracle_matrix (dj_string f)))) 3 [1, 2, 0]
     [x0, x1, x2, x3, x4, x5, x6, x7] =
   [if f 0 then x4 else x0, if f 1 then x5 else x1, if f 2 then x6 else x2, if f 3 then x7 else x3,
    if f 0 then x0 else x4, if f 1 then x1 else x5, if f 2 then x2 else x6, if f 3 then x3 else x7]"
  by (cases "f 0"; cases "f 1"; cases "f 2"; cases "f 3")
     (simp_all add: dj_string_cases oracle_matrix_def digit_of_def upt_conv_Cons sim_defs)


lemma dj_gates:
  "apply_matrix (unitary H) 3 [0]
     (apply_matrix (unitary H) 3 [2]
       (apply_matrix (unitary H) 3 [1]
         (apply_matrix (unitary (MatrixGate (oracle_matrix (dj_string f)))) 3 [1, 2, 0]
           (apply_matrix (unitary H) 3 [0]
             (apply_matrix (unitary H) 3 [2]
               (apply_matrix (unitary H) 3 [1]
                 (apply_matrix (unitary X) 3 [0] [1, 0, 0, 0, 0, 0, 0, 0]))))))) =
   [0, 0, 0, 0,
    (sign_of (f 0) + sign_of (f 1) + sign_of (f 2) + sign_of (f 3)) / 4,
    (sign_of (f 0) - sign_of (f 1) + sign_of (f 2) - sign_of (f 3)) / 4,
    (sign_of (f 0) + sign_of (f 1) - sign_of (f 2) - sign_of (f 3)) / 4,
    (sign_of (f 0) - sign_of (f 1) - sign_of (f 2) + sign_of (f 3)) / 4]"
  apply (simp only: X0 H1 H2 H0 oracle_apply)
  apply (cases "f 0"; cases "f 1"; cases "f 2"; cases "f 3")
  apply (simp_all add: sign_of_def field_simps sqrt2_sq)
  done


lemma sum_list_single:
  assumes "\<And>i. i < n \<Longrightarrow> i \<noteq> k \<Longrightarrow> g i = (0::real)"
  shows "sum_list (map g [0..<n]) = (if k < n then g k else 0)"
  using assms
proof (induction n)
  case 0
  then show ?case by simp
next
  case (Suc n)
  then have "sum_list (map g [0..<n]) = (if k < n then g k else 0)" by simp
  moreover have "k \<noteq> n \<Longrightarrow> g n = 0" using Suc.prems by simp
  ultimately show ?case by (cases "k = n") auto
qed

lemma prob_supported:
  assumes "supported sv k0" "length sv = 2 ^ n" "k0 < 2 ^ n"
  shows "outcome_probability n k b sv = (if bit_at n k0 k = b then (cmod (sv ! k0))\<^sup>2 else 0)"
proof -
  have "outcome_probability n k b sv =
      (if k0 < 2 ^ n then (if bit_at n k0 k = b then (cmod (sv ! k0))\<^sup>2 else 0) else 0)"
    unfolding outcome_probability_def
    by (rule sum_list_single) (use assms(1,2) in \<open>auto simp: supported_def\<close>)
  with assms(3) show ?thesis by simp
qed

lemma project_length: "length (project n k b sv) = 2 ^ n"
  by (simp add: project_def)

lemma project_supported:
  assumes "supported sv k0" "length sv = 2 ^ n"
  shows "supported (project n k b sv) k0"
  using assms by (auto simp: supported_def project_def)

lemma project_nonzero:
  assumes "supported sv k0" "length sv = 2 ^ n" "k0 < 2 ^ n" "sv ! k0 \<noteq> 0"
  shows "project n k (bit_at n k0 k) sv ! k0 \<noteq> 0"
  using assms by (simp add: project_def prob_supported)

lemma act_measure_supported:
  assumes "act (Measure q) outs m = Some (m1, later)"
      and "index_of q (qubit_order m) = Some k"
      and "length (state_vector m) = 2 ^ length (qubit_order m)"
      and "supported (state_vector m) k0" "k0 < 2 ^ length (qubit_order m)"
  shows "outs = bit_at (length (qubit_order m)) k0 k # later"
    and "qubit_order m1 = qubit_order m"
    and "measurements m1 = (measurements m)(q \<mapsto> [int (bit_at (length (qubit_order m)) k0 k)])"
    and "supported (state_vector m1) k0"
    and "length (state_vector m1) = 2 ^ length (qubit_order m)"
  using assms
  by (auto simp: prob_supported project_supported project_length split: list.splits if_splits)

lemma act_measure_possible:
  assumes "index_of q (qubit_order m) = Some k"
      and "length (state_vector m) = 2 ^ length (qubit_order m)"
      and "supported (state_vector m) k0" "k0 < 2 ^ length (qubit_order m)"
      and "state_vector m ! k0 \<noteq> 0"
  shows "\<exists>m1. act (Measure q) (bit_at (length (qubit_order m)) k0 k # later) m = Some (m1, later) \<and>
              state_vector m1 ! k0 \<noteq> 0"
  using assms by (simp add: prob_supported project_nonzero)


lemma dj_measurements:
  assumes g: "qubit_order g = [''control'', ''q1'', ''q2'']" "length (state_vector g) = 8"
      and sup: "supported (state_vector g) k0" "k0 < 8"
      and sim: "simulate_moment_steps [Measure ''q1'', Measure ''q2'', Measure ''control''] outs g
                  = Some l"
  shows "l \<noteq> [] \<and> measurements (last l) ''q1'' = Some [int (bit_at 3 k0 1)] \<and>
         measurements (last l) ''q2'' = Some [int (bit_at 3 k0 2)]"
proof -
  from sim obtain m1 o1 where a1: "act (Measure ''q1'') outs g = Some (m1, o1)"
    and s1: "map_option ((#) m1) (simulate_moment_steps [Measure ''q2'', Measure ''control''] o1 m1)
               = Some l"
    by (auto split: option.splits)
  from s1 obtain l1 where l1: "simulate_moment_steps [Measure ''q2'', Measure ''control''] o1 m1 = Some l1"
    and l: "l = m1 # l1" by auto
  from l1 obtain m2 o2 where a2: "act (Measure ''q2'') o1 m1 = Some (m2, o2)"
    and s2: "map_option ((#) m2) (simulate_moment_steps [Measure ''control''] o2 m2) = Some l1"
    by (auto split: option.splits)
  from s2 obtain l2 where l2: "simulate_moment_steps [Measure ''control''] o2 m2 = Some l2"
    and l1': "l1 = m2 # l2" by auto
  from l2 obtain m3 o3 where a3: "act (Measure ''control'') o2 m2 = Some (m3, o3)"
    and l2': "l2 = [m3]"
    by (auto split: option.splits)
  have n: "length (qubit_order g) = 3" by (simp add: g)
  have i1: "index_of ''q1'' (qubit_order g) = Some 1" by (simp add: g)
  have len: "length (state_vector g) = 2 ^ length (qubit_order g)" by (simp add: g)
  have k0: "k0 < 2 ^ length (qubit_order g)" using sup(2) by (simp add: g)
  note r1 = act_measure_supported[OF a1 i1 len sup(1) k0, unfolded n]
  have n1: "length (qubit_order m1) = 3" by (simp only: r1(2) n)
  have i2: "index_of ''q2'' (qubit_order m1) = Some 2" by (simp add: r1(2) g)
  have len1: "length (state_vector m1) = 2 ^ length (qubit_order m1)" by (simp only: r1(5) n1)
  have k1: "k0 < 2 ^ length (qubit_order m1)" using sup(2) by (simp add: n1)
  note r2 = act_measure_supported[OF a2 i2 len1 r1(4) k1, unfolded n1]
  have n2: "length (qubit_order m2) = 3" by (simp only: r2(2) n1)
  have i3: "index_of ''control'' (qubit_order m2) = Some 0" by (simp add: r2(2) r1(2) g)
  have len2: "length (state_vector m2) = 2 ^ length (qubit_order m2)" by (simp only: r2(5) n2)
  have k2: "k0 < 2 ^ length (qubit_order m2)" using sup(2) by (simp add: n2)
  note r3 = act_measure_supported[OF a3 i3 len2 r2(4) k2, unfolded n2]
  have "last l = m3" by (simp add: l l1' l2')
  moreover have "l \<noteq> []" by (simp add: l)
  moreover have "measurements m3 ''q1'' = Some [int (bit_at 3 k0 1)]"
    unfolding r3(3) r2(3) r1(3) by simp
  moreover have "measurements m3 ''q2'' = Some [int (bit_at 3 k0 2)]"
    unfolding r3(3) r2(3) r1(3) by simp
  ultimately show ?thesis by simp
qed

lemma dj_measurements_possible:
  assumes g: "qubit_order g = [''control'', ''q1'', ''q2'']" "length (state_vector g) = 8"
      and sup: "supported (state_vector g) k0" "k0 < 8" "state_vector g ! k0 \<noteq> 0"
  shows "\<exists>l. simulate_moment_steps [Measure ''q1'', Measure ''q2'', Measure ''control'']
               [bit_at 3 k0 1, bit_at 3 k0 2, bit_at 3 k0 0] g = Some l"
proof -
  have n: "length (qubit_order g) = 3" by (simp add: g)
  have i1: "index_of ''q1'' (qubit_order g) = Some 1" by (simp add: g)
  have len: "length (state_vector g) = 2 ^ length (qubit_order g)" by (simp add: g)
  have k0: "k0 < 2 ^ length (qubit_order g)" using sup(2) by (simp add: g)
  from act_measure_possible[OF i1 len sup(1) k0 sup(3), of "[bit_at 3 k0 2, bit_at 3 k0 0]",
      unfolded n]
  obtain m1 where a1: "act (Measure ''q1'') [bit_at 3 k0 1, bit_at 3 k0 2, bit_at 3 k0 0] g =
      Some (m1, [bit_at 3 k0 2, bit_at 3 k0 0])" and z1: "state_vector m1 ! k0 \<noteq> 0"
    by blast
  note r1 = act_measure_supported[OF a1 i1 len sup(1) k0, unfolded n]
  have n1: "length (qubit_order m1) = 3" by (simp only: r1(2) n)
  have i2: "index_of ''q2'' (qubit_order m1) = Some 2" by (simp add: r1(2) g)
  have len1: "length (state_vector m1) = 2 ^ length (qubit_order m1)" by (simp only: r1(5) n1)
  have k1: "k0 < 2 ^ length (qubit_order m1)" using sup(2) by (simp add: n1)
  from act_measure_possible[OF i2 len1 r1(4) k1 z1, of "[bit_at 3 k0 0]", unfolded n1]
  obtain m2 where a2: "act (Measure ''q2'') [bit_at 3 k0 2, bit_at 3 k0 0] m1 =
      Some (m2, [bit_at 3 k0 0])" and z2: "state_vector m2 ! k0 \<noteq> 0"
    by blast
  note r2 = act_measure_supported[OF a2 i2 len1 r1(4) k1, unfolded n1]
  have n2: "length (qubit_order m2) = 3" by (simp only: r2(2) n1)
  have i3: "index_of ''control'' (qubit_order m2) = Some 0" by (simp add: r2(2) r1(2) g)
  have len2: "length (state_vector m2) = 2 ^ length (qubit_order m2)" by (simp only: r2(5) n2)
  have k2: "k0 < 2 ^ length (qubit_order m2)" using sup(2) by (simp add: n2)
  from act_measure_possible[OF i3 len2 r2(4) k2 z2, of "[]", unfolded n2]
  obtain m3 where a3: "act (Measure ''control'') [bit_at 3 k0 0] m2 = Some (m3, [])"
    by blast
  show ?thesis
    using a1 a2 a3 by (simp del: act.simps)
qed


lemma initial_moment_3:
  "length (sorted_qubits sc) = 3 \<Longrightarrow>
   initial_moment sc = \<lparr>qubit_order = sorted_qubits sc, state_vector = [1, 0, 0, 0, 0, 0, 0, 0],
                         measurements = Map.empty\<rparr>"
  by (simp add: initial_moment_def numeral_eq_Suc)

lemma Suc_numerals: "Suc 0 = 1" "Suc 1 = 2" "Suc 2 = 3"
  by simp_all

lemma prefix8:
  "\<exists>pre. map_option (\<lambda>x. a1 # a2 # a3 # a4 # a5 # a6 # a7 # a8 # x) y = map_option ((@) pre) y"
  by (rule exI[of _ "[a1, a2, a3, a4, a5, a6, a7, a8]"]) (cases y; simp)

lemma dj_unroll:
  "\<exists>pre. scenario_moments (DeutschJozsa (oracle_matrix (dj_string f))) outs =
     map_option ((@) pre)
       (simulate_moment_steps [Measure ''q1'', Measure ''q2'', Measure ''control''] outs
          \<lparr>qubit_order = [''control'', ''q1'', ''q2''],
           state_vector =
             [0, 0, 0, 0,
              (sign_of (f 0) + sign_of (f 1) + sign_of (f 2) + sign_of (f 3)) / 4,
              (sign_of (f 0) - sign_of (f 1) + sign_of (f 2) - sign_of (f 3)) / 4,
              (sign_of (f 0) + sign_of (f 1) - sign_of (f 2) - sign_of (f 3)) / 4,
              (sign_of (f 0) - sign_of (f 1) - sign_of (f 2) + sign_of (f 3)) / 4],
           measurements = Map.empty\<rparr>)"
proof -
  define rest where "rest = [Measure ''q1'', Measure ''q2'', Measure ''control'']"
  have c: "circuit_definition (DeutschJozsa (oracle_matrix (dj_string f))) =
     On X [''control''] # On H [''q1''] # On H [''q2''] # On H [''control''] #
     On (MatrixGate (oracle_matrix (dj_string f))) [''q1'', ''q2'', ''control''] #
     On H [''q1''] # On H [''q2''] # On H [''control''] # rest"
    by (simp add: rest_def)
  show ?thesis
    unfolding scenario_moments_def c rest_def[symmetric]
    apply (simp add: initial_moment_3 option.map_comp comp_def del: unitary.simps)
    apply (simp only: Suc_numerals dj_gates)
    apply (rule prefix8)
    done
qed


lemma tuple_get_0: "tuple_get xs 0 = (case xs of [] \<Rightarrow> Inl IndexError | x # r \<Rightarrow> Inr x)"
  by (cases xs) (simp_all add: tuple_get_def)

lemma dj_check_iff:
  "check_results (DeutschJozsa orc) s (Some final_step) = Inr True \<longleftrightarrow>
     (\<exists>r1 r2. measurements final_step ''q1'' = Some (0 # r1) \<and>
              measurements final_step ''q2'' = Some (0 # r2))"
proof (cases "measurements final_step ''q1''")
  case None
  then show ?thesis by (simp add: dict_get_def)
next
  case (Some m1)
  note q1 = this
  show ?thesis
  proof (cases m1)
    case Nil
    with q1 show ?thesis by (simp add: dict_get_def tuple_get_0)
  next
    case (Cons v1 r1)
    note m1 = this
    show ?thesis
    proof (cases "v1 = 0")
      case False
      with q1 m1 show ?thesis by (simp add: dict_get_def tuple_get_0)
    next
      case True
      note v1 = this
      show ?thesis
      proof (cases "measurements final_step ''q2''")
        case None
        with q1 m1 v1 show ?thesis by (simp add: dict_get_def tuple_get_0)
      next
        case (Some m2)
        with q1 m1 v1 show ?thesis
          by (cases m2) (simp_all add: dict_get_def tuple_get_0)
      qed
    qed
  qed
qed

lemma dj_check_value:
  assumes "measurements fs ''q1'' = Some [int b1]" "measurements fs ''q2'' = Some [int b2]"
  shows "check_results (DeutschJozsa orc) s (Some fs) = Inr (b1 = 0 \<and> b2 = 0)"
  using assms by (simp add: dict_get_def tuple_get_0)


lemma last_append_nonempty: "l \<noteq> [] \<Longrightarrow> last (pre @ l) = last l"
  by simp

lemma dj_run:
  assumes "supported (dj_final_state f) k0" "k0 < 8"
      and "scenario_moments (DeutschJozsa (oracle_matrix (dj_string f))) outs = Some ms"
  shows "check_results (DeutschJozsa (oracle_matrix (dj_string f))) s (Some (last ms)) =
           Inr (bit_at 3 k0 1 = 0 \<and> bit_at 3 k0 2 = 0)"
proof -
  let ?g = "\<lparr>qubit_order = [''control'', ''q1'', ''q2''], state_vector = dj_final_state f,
             measurements = Map.empty\<rparr>"
  from dj_unroll[of f outs] obtain pre where
    "scenario_moments (DeutschJozsa (oracle_matrix (dj_string f))) outs =
       map_option ((@) pre)
         (simulate_moment_steps [Measure ''q1'', Measure ''q2'', Measure ''control''] outs ?g)"
    unfolding dj_final_state_def by blast
  with assms(3) obtain l where
    l: "simulate_moment_steps [Measure ''q1'', Measure ''q2'', Measure ''control''] outs ?g = Some l"
    and ms: "ms = pre @ l" by auto
  have g: "qubit_order ?g = [''control'', ''q1'', ''q2'']" "length (state_vector ?g) = 8"
    "supported (state_vector ?g) k0"
    using assms(1) by (simp_all add: dj_final_state_def)
  from dj_measurements[OF g(1) g(2) g(3) assms(2) l]
  have "l \<noteq> []" and q1: "measurements (last l) ''q1'' = Some [int (bit_at 3 k0 1)]"
    and q2: "measurements (last l) ''q2'' = Some [int (bit_at 3 k0 2)]" by simp_all
  then have "last ms = last l" by (simp add: ms)
  with dj_check_value[OF q1 q2] show ?thesis by simp
qed

lemma dj_possible:
  assumes "supported (dj_final_state f) k0" "k0 < 8" "dj_final_state f ! k0 \<noteq> 0"
  shows "\<exists>outs ms. scenario_moments (DeutschJozsa (oracle_matrix (dj_string f))) outs = Some ms"
proof -
  let ?g = "\<lparr>qubit_order = [''control'', ''q1'', ''q2''], state_vector = dj_final_state f,
             measurements = Map.empty\<rparr>"
  have g: "qubit_order ?g = [''control'', ''q1'', ''q2'']" "length (state_vector ?g) = 8"
    "supported (state_vector ?g) k0" "state_vector ?g ! k0 \<noteq> 0"
    using assms(1,3) by (simp_all add: dj_final_state_def)
  from dj_measurements_possible[OF g(1) g(2) g(3) assms(2) g(4)] obtain l where
    l: "simulate_moment_steps [Measure ''q1'', Measure ''q2'', Measure ''control'']
          [bit_at 3 k0 1, bit_at 3 k0 2, bit_at 3 k0 0] ?g = Some l" ..
  from dj_unroll[of f "[bit_at 3 k0 1, bit_at 3 k0 2, bit_at 3 k0 0]"] obtain pre where
    "scenario_moments (DeutschJozsa (oracle_matrix (dj_string f)))
       [bit_at 3 k0 1, bit_at 3 k0 2, bit_at 3 k0 0] =
       map_option ((@) pre)
         (simulate_moment_steps [Measure ''q1'', Measure ''q2'', Measure ''control'']
            [bit_at 3 k0 1, bit_at 3 k0 2, bit_at 3 k0 0] ?g)"
    unfolding dj_final_state_def by blast
  with l show ?thesis by auto
qed

lemma supported8:
  "supported [x0, x1, x2, x3, x4, x5, x6, x7] k \<longleftrightarrow>
     (k \<noteq> 0 \<longrightarrow> x0 = 0) \<and> (k \<noteq> 1 \<longrightarrow> x1 = 0) \<and> (k \<noteq> 2 \<longrightarrow> x2 = 0) \<and> (k \<noteq> 3 \<longrightarrow> x3 = 0) \<and>
     (k \<noteq> 4 \<longrightarrow> x4 = 0) \<and> (k \<noteq> 5 \<longrightarrow> x5 = 0) \<and> (k \<noteq> 6 \<longrightarrow> x6 = 0) \<and> (k \<noteq> 7 \<longrightarrow> x7 = 0)"
  by (simp add: supported_def All_less_Suc2 numeral_eq_Suc) blast

lemma dj_constant_support:
  "supported (dj_final_state (\<lambda>x. False)) 4 \<and> dj_final_state (\<lambda>x. False) ! 4 \<noteq> 0"
  by (simp add: dj_final_state_def supported8 sign_of_def)

lemma balanced_cases:
  assumes "balanced f"
  shows "(f 0 \<and> f 1 \<and> \<not> f 2 \<and> \<not> f 3) \<or> (f 0 \<and> \<not> f 1 \<and> f 2 \<and> \<not> f 3) \<or>
         (f 0 \<and> \<not> f 1 \<and> \<not> f 2 \<and> f 3) \<or> (\<not> f 0 \<and> f 1 \<and> f 2 \<and> \<not> f 3) \<or>
         (\<not> f 0 \<and> f 1 \<and> \<not> f 2 \<and> f 3) \<or> (\<not> f 0 \<and> \<not> f 1 \<and> f 2 \<and> f 3)"
  using assms by (simp add: balanced_def upts split: if_splits)

lemma dj_balanced_support:
  assumes "balanced f"
  shows "\<exists>k0. (k0 = 5 \<or> k0 = 6 \<or> k0 = 7) \<and> supported (dj_final_state f) k0 \<and>
              dj_final_state f ! k0 \<noteq> 0"
proof -
  from balanced_cases[OF assms]
  consider "f 0 \<and> f 1 \<and> \<not> f 2 \<and> \<not> f 3" | "f 0 \<and> \<not> f 1 \<and> f 2 \<and> \<not> f 3"
    | "f 0 \<and> \<not> f 1 \<and> \<not> f 2 \<and> f 3" | "\<not> f 0 \<and> f 1 \<and> f 2 \<and> \<not> f 3"
    | "\<not> f 0 \<and> f 1 \<and> \<not> f 2 \<and> f 3" | "\<not> f 0 \<and> \<not> f 1 \<and> f 2 \<and> f 3" by blast
  then show ?thesis
  proof cases
    case 1
    then show ?thesis by (intro exI[of _ 6]) (simp add: dj_final_state_def supported8 sign_of_def)
  next
    case 2
    then show ?thesis by (intro exI[of _ 5]) (simp add: dj_final_state_def supported8 sign_of_def)
  next
    case 3
    then show ?thesis by (intro exI[of _ 7]) (simp add: dj_final_state_def supported8 sign_of_def)
  next
    case 4
    then show ?thesis by (intro exI[of _ 7]) (simp add: dj_final_state_def supported8 sign_of_def)
  next
    case 5
    then show ?thesis by (intro exI[of _ 5]) (simp add: dj_final_state_def supported8 sign_of_def)
  next
    case 6
    then show ?thesis by (intro exI[of _ 6]) (simp add: dj_final_state_def supported8 sign_of_def)
  qed
qed

lemma dj_string_acceptable: "acceptable (dj_string f)"
  by (cases "f 0"; cases "f 1"; cases "f 2"; cases "f 3")
     (simp_all add: acceptable_def dj_string_cases)

text \<open>
  Claim C6. The final check of the Deutsch-Jozsa scenario returns true if and only if
  the final snapshot records outcome 0 first for \<open>q1\<close> and for \<open>q2\<close>. In particular,
  for the oracle built from the string \<open>12345678\<close> (the constant function) every run of
  the circuit ends with the check returning true, and for the oracle of every balanced
  function every run ends with the check returning false; in both cases the window
  accepts the string and the circuit has a run.
\<close>

theorem deutsch_jozsa_final_check:
  "(check_results (DeutschJozsa orc) s (Some final_step) = Inr True \<longleftrightarrow>
      (\<exists>r1 r2. measurements final_step ''q1'' = Some (0 # r1) \<and>
               measurements final_step ''q2'' = Some (0 # r2))) \<and>
   create_simulator ''12345678'' = Some (DeutschJozsa (oracle_matrix ''12345678'')) \<and>
   (\<exists>outs ms. scenario_moments (DeutschJozsa (oracle_matrix ''12345678'')) outs = Some ms) \<and>
   (\<forall>outs ms. scenario_moments (DeutschJozsa (oracle_matrix ''12345678'')) outs = Some ms \<longrightarrow>
      check_results (DeutschJozsa (oracle_matrix ''12345678'')) s (Some (last ms)) = Inr True) \<and>
   (\<forall>f. balanced f \<longrightarrow>
      create_simulator (dj_string f) = Some (DeutschJozsa (oracle_matrix (dj_string f))) \<and>
      (\<exists>outs ms. scenario_moments (DeutschJozsa (oracle_matrix (dj_string f))) outs = Some ms) \<and>
      (\<forall>outs ms. scenario_moments (DeutschJozsa (oracle_matrix (dj_string f))) outs = Some ms \<longrightarrow>
         check_results (DeutschJozsa (oracle_matrix (dj_string f))) s (Some (last ms)) =
           Inr False))"
proof (intro conjI allI impI)
  show "check_results (DeutschJozsa orc) s (Some final_step) = Inr True \<longleftrightarrow>
      (\<exists>r1 r2. measurements final_step ''q1'' = Some (0 # r1) \<and>
               measurements final_step ''q2'' = Some (0 # r2))"
    by (rule dj_check_iff)
next
  show "create_simulator ''12345678'' = Some (DeutschJozsa (oracle_matrix ''12345678''))"
    using dj_string_acceptable[of "\<lambda>x. False"]
    by (simp add: create_simulator_def dj_string_const)
next
  from dj_constant_support dj_possible[of "\<lambda>x. False" 4]
  show "\<exists>outs ms. scenario_moments (DeutschJozsa (oracle_matrix ''12345678'')) outs = Some ms"
    by (simp add: dj_string_const)
next
  fix outs ms
  assume "scenario_moments (DeutschJozsa (oracle_matrix ''12345678'')) outs = Some ms"
  with dj_constant_support dj_run[of "\<lambda>x. False" 4 outs ms s]
  show "check_results (DeutschJozsa (oracle_matrix ''12345678'')) s (Some (last ms)) = Inr True"
    by (simp add: dj_string_const bit_at_def)
next
  fix f :: "nat \<Rightarrow> bool"
  assume "balanced f"
  show "create_simulator (dj_string f) = Some (DeutschJozsa (oracle_matrix (dj_string f)))"
    by (simp add: create_simulator_def dj_string_acceptable)
next
  fix f :: "nat \<Rightarrow> bool"
  assume "balanced f"
  from dj_balanced_support[OF this] obtain k0 where
    "k0 = 5 \<or> k0 = 6 \<or> k0 = 7" "supported (dj_final_state f) k0" "dj_final_state f ! k0 \<noteq> 0"
    by blast
  then show "\<exists>outs ms. scenario_moments (DeutschJozsa (oracle_matrix (dj_string f))) outs = Some ms"
    using dj_possible[of f k0] by auto
next
  fix f :: "nat \<Rightarrow> bool" and outs ms
  assume "balanced f"
    and run: "scenario_moments (DeutschJozsa (oracle_matrix (dj_string f))) outs = Some ms"
  from dj_balanced_support[OF this(1)] obtain k0 where
    k0: "k0 = 5 \<or> k0 = 6 \<or> k0 = 7" and sup: "supported (dj_final_state f) k0"
    by blast
  from k0 have lt: "k0 < 8" by auto
  from k0 have "\<not> (bit_at 3 k0 1 = 0 \<and> bit_at 3 k0 2 = 0)"
    by (auto simp: bit_at_def)
  with dj_run[OF sup lt run, of s]
  show "check_results (DeutschJozsa (oracle_matrix (dj_string f))) s (Some (last ms)) = Inr False"
    by simp
qed

lemma ex_parity_balanced: "balanced (\<lambda>x. x = 1 \<or> x = 2)"
  by (simp add: balanced_def upts)

lemma ex_parity_string: "dj_string (\<lambda>x. x = 1 \<or> x = 2) = ''12436578''"
  by (simp add: dj_string_cases)

theorem deutsch_jozsa_final_check_witness:
  "balanced (\<lambda>x. x = 1 \<or> x = 2) \<and>
   dj_string (\<lambda>x. x = 1 \<or> x = 2) = ''12436578'' \<and>
   create_simulator ''12436578'' = Some (DeutschJozsa (oracle_matrix ''12436578'')) \<and>
   (\<exists>outs ms. scenario_moments (DeutschJozsa (oracle_matrix ''12436578'')) outs = Some ms \<and>
      check_results (DeutschJozsa (oracle_matrix ''12436578''))
        (init_stepper (DeutschJozsa (oracle_matrix ''12436578'')) ms) (Some (last ms)) = Inr False) \<and>
   (\<exists>outs ms. scenario_moments (DeutschJozsa (oracle_matrix ''12345678'')) outs = Some ms \<and>
      check_results (DeutschJozsa (oracle_matrix ''12345678''))
        (init_stepper (DeutschJozsa (oracle_matrix ''12345678'')) ms) (Some (last ms)) = Inr True)"
proof -
  note t = deutsch_jozsa_final_check
  from t obtain outs ms where
    a: "scenario_moments (DeutschJozsa (oracle_matrix ''12345678'')) outs = Some ms" by blast
  from t a have a2: "check_results (DeutschJozsa (oracle_matrix ''12345678''))
        (init_stepper (DeutschJozsa (oracle_matrix ''12345678'')) ms) (Some (last ms)) = Inr True"
    by blast
  from t ex_parity_balanced have
    b0: "create_simulator (dj_string (\<lambda>x. x = 1 \<or> x = 2)) =
           Some (DeutschJozsa (oracle_matrix (dj_string (\<lambda>x. x = 1 \<or> x = 2))))"
    and b1: "\<exists>outs ms. scenario_moments
                (DeutschJozsa (oracle_matrix (dj_string (\<lambda>x. x = 1 \<or> x = 2)))) outs = Some ms"
    by blast+
  from b1 obtain outs2 ms2 where
    b: "scenario_moments (DeutschJozsa (oracle_matrix (dj_string (\<lambda>x. x = 1 \<or> x = 2)))) outs2 =
          Some ms2" by blast
  from t ex_parity_balanced b have
    b2: "check_results (DeutschJozsa (oracle_matrix (dj_string (\<lambda>x. x = 1 \<or> x = 2))))
           (init_stepper (DeutschJozsa (oracle_matrix (dj_string (\<lambda>x. x = 1 \<or> x = 2)))) ms2)
           (Some (last ms2)) = Inr False"
    by blast
  from a a2 b b0 b2 ex_parity_balanced ex_parity_string show ?thesis
    by (auto simp only: ex_parity_string)
qed

section \<open>The teleportation scenario\<close>

































































end
